theory Spec2Isabelle
  imports Complex_Main "HOL-Library.Word"
begin

unbundle bit_operations_syntax

chapter \<open>A Cursor agent-protocol proxy: codec, tool bridge and stream state machine\<close>

text \<open>
  A shallow embedding of the TypeScript sources. Conventions used throughout:
  \<^item> a \<open>Uint8Array\<close> is a list of bytes; a byte is a natural number (every byte the
    encoders produce is below 256, see \<open>encodeVarint_bytes\<close>);
  \<^item> a JavaScript \<open>bigint\<close>, and a \<open>number\<close> that holds an integer, is an \<open>int\<close>;
  \<^item> a JavaScript string is the list of its UTF-16 code units (\<open>jsstring\<close>), so that
    \<open>length\<close> is the string's \<open>.length\<close>; \<open>str\<close> turns a literal into such a list;
  \<^item> an exception is the \<open>Inl\<close> branch of a sum, or \<open>None\<close>;
  \<^item> functions of the JavaScript runtime and of modules of the repository that are not
    part of the sources at hand are fields of an environment record \<open>env\<close>, so that
    every statement about the code holds whatever they compute.
\<close>

section \<open>Definitions\<close>

subsection \<open>Bytes and strings\<close>

type_synonym byte = nat
type_synonym bytes = "byte list"
type_synonym jsstring = "nat list"

definition str :: "string \<Rightarrow> jsstring" where
  "str s = map of_char s"

text \<open>\<open>ToInt32\<close>: the 32-bit two's-complement reading that the operators \<open><<\<close> and \<open>|\<close> give
  their result.\<close>

definition toInt32 :: "int \<Rightarrow> int" where
  "toInt32 x = signed_take_bit 31 x"

text \<open>\<open>new TextEncoder().encode(s)\<close>: UTF-8 of a UTF-16 string. A surrogate pair is one
  four-byte sequence; a lone surrogate is encoded as U+FFFD (\<open>EF BF BD\<close>).\<close>

definition isHighSurrogate :: "nat \<Rightarrow> bool" where
  "isHighSurrogate c = (0xD800 \<le> c \<and> c < 0xDC00)"

definition isLowSurrogate :: "nat \<Rightarrow> bool" where
  "isLowSurrogate c = (0xDC00 \<le> c \<and> c < 0xE000)"

definition utf8_of_codepoint :: "nat \<Rightarrow> bytes" where
  "utf8_of_codepoint cp =
     (if cp < 0x80 then [cp]
      else if cp < 0x800 then [0xC0 + cp div 64, 0x80 + cp mod 64]
      else if cp < 0x10000 then [0xE0 + cp div 4096, 0x80 + (cp div 64) mod 64, 0x80 + cp mod 64]
      else [0xF0 + (cp div 262144) mod 8, 0x80 + (cp div 4096) mod 64,
            0x80 + (cp div 64) mod 64, 0x80 + cp mod 64])"

fun textEncode :: "jsstring \<Rightarrow> bytes" where
  "textEncode [] = []"
| "textEncode [c] =
     (if isHighSurrogate c \<or> isLowSurrogate c then [0xEF, 0xBF, 0xBD] else utf8_of_codepoint c)"
| "textEncode (c # d # cs) =
     (if isHighSurrogate c \<and> isLowSurrogate d
      then utf8_of_codepoint (0x10000 + (c - 0xD800) * 1024 + (d - 0xDC00)) @ textEncode cs
      else if isHighSurrogate c \<or> isLowSurrogate c then [0xEF, 0xBF, 0xBD] @ textEncode (d # cs)
      else utf8_of_codepoint c @ textEncode (d # cs))"

subsection \<open>The wire codec (the encoders of the protocol debug script)\<close>

text \<open>
  \<^verbatim>\<open>
  function encodeVarint(value: number | bigint): Uint8Array {
    const bytes: number[] = [];
    let v = typeof value === 'bigint' ? value : BigInt(value);
    do {
      let byte = Number(v & 0x7fn);
      v >>= 7n;
      if (v > 0n) byte |= 0x80;
      bytes.push(byte);
    } while (v > 0n);
    return new Uint8Array(bytes);
  }
  \<close>
  On a \<open>bigint\<close>, \<open>& 0x7fn\<close> and \<open>>>= 7n\<close> are the operations of an unbounded
  two's-complement integer: \<open>AND 127\<close> and \<open>drop_bit 7\<close> on \<open>int\<close>. A negative value
  leaves the loop after one byte.
\<close>

function encodeVarint :: "int \<Rightarrow> bytes" where
  "encodeVarint v =
     (if drop_bit 7 v > 0 then (nat (v AND 127) OR 128) # encodeVarint (drop_bit 7 v)
      else [nat (v AND 127)])"
  by pat_completeness auto
termination
proof (relation "measure nat")
  show "wf (measure nat)" by simp
next
  fix v :: int
  assume "0 < drop_bit 7 v"
  then have "0 < v div 128" by (simp add: drop_bit_eq_div)
  then have "0 < v \<and> v div 128 < v" by presburger
  then show "(drop_bit 7 v, v) \<in> measure nat"
    by (simp add: drop_bit_eq_div)
qed

declare encodeVarint.simps [simp del]

text \<open>
  The varint reader of \<open>analyzeProtoBytes\<close>:
  \<^verbatim>\<open>
      let value = 0n;
      let shift = 0n;
      while (offset < bytes.length) {
        const byte = bytes[offset];
        value |= BigInt(byte & 0x7f) << shift;
        shift += 7n;
        offset++;
        if (!(byte & 0x80)) break;
      }
  \<close>
  The bytes from \<open>offset\<close> on are the list argument; the function returns the value and
  the bytes that follow the varint (the new \<open>offset\<close>). It starts at \<open>value = 0\<close>,
  \<open>shift = 0\<close>, and it has no limit on the number of bytes.
\<close>

fun decodeVarintLoop :: "bytes \<Rightarrow> int \<Rightarrow> nat \<Rightarrow> int \<times> bytes" where
  "decodeVarintLoop [] val shift = (val, [])"
| "decodeVarintLoop (byte # rest) val shift =
     (let val' = val OR push_bit shift (int (byte AND 127))
      in if byte AND 128 = 0 then (val', rest)
         else decodeVarintLoop rest val' (shift + 7))"

definition decodeVarint :: "bytes \<Rightarrow> int \<times> bytes" where
  "decodeVarint bs = decodeVarintLoop bs 0 0"

definition concatBytes :: "bytes list \<Rightarrow> bytes" where
  "concatBytes arrays = concat arrays"

definition encodeFieldKey :: "int \<Rightarrow> int \<Rightarrow> bytes" where
  "encodeFieldKey fieldNumber wireType =
     encodeVarint (toInt32 (toInt32 (push_bit 3 fieldNumber) OR wireType))"

definition encodeUint32Field :: "int \<Rightarrow> int \<Rightarrow> bytes" where
  "encodeUint32Field fieldNumber val =
     (if val = 0 then []
      else concatBytes [encodeFieldKey fieldNumber 0, encodeVarint val])"

definition encodeInt32Field :: "int \<Rightarrow> int \<Rightarrow> bytes" where
  "encodeInt32Field fieldNumber val =
     (if val = 0 then []
      else concatBytes [encodeFieldKey fieldNumber 0,
                        encodeVarint (if val \<ge> 0 then val else val + 0x100000000)])"

definition encodeStringField :: "int \<Rightarrow> jsstring \<Rightarrow> bytes" where
  "encodeStringField fieldNumber val =
     (if val = [] then []
      else (let bs = textEncode val
            in concatBytes [encodeFieldKey fieldNumber 2, encodeVarint (int (length bs)), bs]))"

definition encodeMessageField :: "int \<Rightarrow> bytes \<Rightarrow> bytes" where
  "encodeMessageField fieldNumber message =
     concatBytes [encodeFieldKey fieldNumber 2, encodeVarint (int (length message)), message]"

text \<open>\<open>encodeShellSuccess\<close>; \<open>executionTimeMs\<close> is optional, and
  \<open>executionTimeMs ? \<dots> : new Uint8Array(0)\<close> skips \<open>undefined\<close> and \<open>0\<close> alike.\<close>

definition encodeShellSuccess ::
  "jsstring \<Rightarrow> jsstring \<Rightarrow> jsstring \<Rightarrow> jsstring \<Rightarrow> int \<Rightarrow> int option \<Rightarrow> bytes" where
  "encodeShellSuccess command cwd stdout stderr exitCode executionTimeMs =
     concatBytes
       [encodeStringField 1 command,
        encodeStringField 2 cwd,
        encodeInt32Field 3 exitCode,
        encodeStringField 4 [],
        encodeStringField 5 stdout,
        encodeStringField 6 stderr,
        (case executionTimeMs of
           None \<Rightarrow> []
         | Some t \<Rightarrow> if t \<noteq> 0 then encodeInt32Field 7 t else [])]"

definition encodeShellResult ::
  "jsstring \<Rightarrow> jsstring \<Rightarrow> jsstring \<Rightarrow> jsstring \<Rightarrow> int \<Rightarrow> int option \<Rightarrow> bytes" where
  "encodeShellResult command cwd stdout stderr exitCode executionTimeMs =
     (let shellOutcome = encodeShellSuccess command cwd stdout stderr exitCode executionTimeMs;
          resultField = (if exitCode = 0 then 1 else 2)
      in encodeMessageField resultField shellOutcome)"

text \<open>\<open>if (execId)\<close> skips \<open>undefined\<close> and the empty string alike.\<close>

definition buildExecClientMessageWithShellResult :: "int \<Rightarrow> jsstring option \<Rightarrow> bytes \<Rightarrow> bytes" where
  "buildExecClientMessageWithShellResult ident execId shellResult =
     concatBytes
       ([encodeUint32Field 1 ident] @
        (case execId of
           None \<Rightarrow> []
         | Some e \<Rightarrow> if e \<noteq> [] then [encodeStringField 15 e] else []) @
        [encodeMessageField 2 shellResult])"

definition buildAgentClientMessageWithExec :: "bytes \<Rightarrow> bytes" where
  "buildAgentClientMessageWithExec execClientMessage = encodeMessageField 2 execClientMessage"

definition encodeExecClientStreamClose :: "int \<Rightarrow> bytes" where
  "encodeExecClientStreamClose ident = encodeUint32Field 1 ident"

definition buildExecClientControlMessage :: "int \<Rightarrow> bytes" where
  "buildExecClientControlMessage ident = encodeMessageField 1 (encodeExecClientStreamClose ident)"

definition buildAgentClientMessageWithExecControl :: "bytes \<Rightarrow> bytes" where
  "buildAgentClientMessageWithExecControl controlMessage = encodeMessageField 5 controlMessage"

subsection \<open>Runtime string functions\<close>

text \<open>
  \<open>TextDecoder\<close> for UTF-8, after the decoder of the Encoding Standard: \<open>cp\<close> is the code
  point being assembled, \<open>need\<close> the number of continuation bytes still expected, \<open>lo\<close> and
  \<open>hi\<close> the bounds of the next continuation byte. On a malformed sequence the fatal
  decoder throws (\<open>None\<close>); the default decoder writes U+FFFD and, when the offending byte
  came in place of a continuation byte, reads that byte again as the start of a sequence.
\<close>

definition consOpt :: "'a \<Rightarrow> 'a list option \<Rightarrow> 'a list option" where
  "consOpt x r = map_option ((#) x) r"

function utf8Loop :: "bool \<Rightarrow> bytes \<Rightarrow> nat \<Rightarrow> nat \<Rightarrow> nat \<Rightarrow> nat \<Rightarrow> nat list option" where
  "utf8Loop fatal [] cp need lo hi =
     (if need = 0 then Some [] else if fatal then None else Some [0xFFFD])"
| "utf8Loop fatal (b # rest) cp need lo hi =
     (if need = 0 then
        (if b \<le> 0x7F then consOpt b (utf8Loop fatal rest 0 0 0x80 0xBF)
         else if 0xC2 \<le> b \<and> b \<le> 0xDF then utf8Loop fatal rest (b - 0xC0) 1 0x80 0xBF
         else if 0xE0 \<le> b \<and> b \<le> 0xEF then
           utf8Loop fatal rest (b - 0xE0) 2 (if b = 0xE0 then 0xA0 else 0x80)
                                          (if b = 0xED then 0x9F else 0xBF)
         else if 0xF0 \<le> b \<and> b \<le> 0xF4 then
           utf8Loop fatal rest (b - 0xF0) 3 (if b = 0xF0 then 0x90 else 0x80)
                                          (if b = 0xF4 then 0x8F else 0xBF)
         else if fatal then None
         else consOpt 0xFFFD (utf8Loop fatal rest 0 0 0x80 0xBF))
      else if b < lo \<or> hi < b then
        (if fatal then None else consOpt 0xFFFD (utf8Loop fatal (b # rest) 0 0 0x80 0xBF))
      else if need = 1 then consOpt (cp * 64 + (b - 0x80)) (utf8Loop fatal rest 0 0 0x80 0xBF)
      else utf8Loop fatal rest (cp * 64 + (b - 0x80)) (need - 1) 0x80 0xBF)"
  by pat_completeness auto
termination
  by (relation "measure (\<lambda>(fatal, bs, cp, need, lo, hi). 2 * length bs + (if need = 0 then 0 else 1))")
     auto

definition utf16_of_codepoint :: "nat \<Rightarrow> jsstring" where
  "utf16_of_codepoint cp =
     (if cp < 0x10000 then [cp]
      else [0xD800 + (cp - 0x10000) div 1024, 0xDC00 + (cp - 0x10000) mod 1024])"

text \<open>A leading byte order mark is dropped (\<open>ignoreBOM\<close> is not set anywhere in the
  sources).\<close>

definition stripBOM :: "bytes \<Rightarrow> bytes" where
  "stripBOM bs = (if take 3 bs = [0xEF, 0xBB, 0xBF] then drop 3 bs else bs)"

text \<open>\<open>new TextDecoder('utf-8', { fatal: true }).decode(data)\<close>; \<open>None\<close> is the thrown
  \<open>TypeError\<close>.\<close>

definition textDecodeFatal :: "bytes \<Rightarrow> jsstring option" where
  "textDecodeFatal data =
     map_option (\<lambda>cps. concat (map utf16_of_codepoint cps))
       (utf8Loop True (stripBOM data) 0 0 0x80 0xBF)"

text \<open>\<open>new TextDecoder().decode(data)\<close>, which never throws (see \<open>utf8Loop_lossy\<close>).\<close>

definition textDecode :: "bytes \<Rightarrow> jsstring" where
  "textDecode data =
     (case utf8Loop False (stripBOM data) 0 0 0x80 0xBF of
        Some cps \<Rightarrow> concat (map utf16_of_codepoint cps)
      | None \<Rightarrow> [])"

text \<open>\<open>String.prototype.includes\<close>, \<open>startsWith\<close> and \<open>split("\n").length\<close>.\<close>

definition startsWith :: "jsstring \<Rightarrow> jsstring \<Rightarrow> bool" where
  "startsWith s pre = (take (length pre) s = pre)"

fun jsIncludes :: "jsstring \<Rightarrow> jsstring \<Rightarrow> bool" where
  "jsIncludes [] sub = (sub = [])"
| "jsIncludes (c # cs) sub = (startsWith (c # cs) sub \<or> jsIncludes cs sub)"


text \<open>White space of \<open>\s\<close> and of \<open>String.prototype.trim\<close>.\<close>

definition isJsSpace :: "nat \<Rightarrow> bool" where
  "isJsSpace c =
     (c = 0x09 \<or> c = 0x0A \<or> c = 0x0B \<or> c = 0x0C \<or> c = 0x0D \<or> c = 0x20 \<or> c = 0xA0 \<or>
      c = 0x1680 \<or> (0x2000 \<le> c \<and> c \<le> 0x200A) \<or> c = 0x2028 \<or> c = 0x2029 \<or>
      c = 0x202F \<or> c = 0x205F \<or> c = 0x3000 \<or> c = 0xFEFF)"


text \<open>\<open>String(n)\<close> for an integer \<open>n\<close>, and \<open>Buffer.from(b).toString('hex')\<close>.\<close>

definition digitChar :: "nat \<Rightarrow> nat" where
  "digitChar d = (if d < 10 then 0x30 + d else 0x57 + d)"

fun showNat :: "nat \<Rightarrow> jsstring" where
  "showNat n = (if n < 10 then [digitChar n] else showNat (n div 10) @ [digitChar (n mod 10)])"

declare showNat.simps [simp del]

definition showInt :: "int \<Rightarrow> jsstring" where
  "showInt i = (if i < 0 then 0x2D # showNat (nat (- i)) else showNat (nat i))"

definition hexOfBytes :: "bytes \<Rightarrow> jsstring" where
  "hexOfBytes bs = concat (map (\<lambda>b. [digitChar (b div 16), digitChar (b mod 16)]) bs)"

text \<open>
  \<open>decodeURIComponent\<close>: a \<open>%\<close> must be followed by two hexadecimal digits; an escaped
  byte below \<open>0x80\<close> is the character itself; a byte with two to four leading one bits
  opens a sequence of that many escaped bytes, which must be the UTF-8 encoding of one
  code point. Everything else is a \<open>URIError\<close> (\<open>None\<close>). The first argument counts the
  escaped bytes still expected, the second holds the bytes of the sequence read so far.
\<close>

definition hexVal :: "nat \<Rightarrow> nat option" where
  "hexVal c =
     (if 0x30 \<le> c \<and> c \<le> 0x39 then Some (c - 0x30)
      else if 0x41 \<le> c \<and> c \<le> 0x46 then Some (c - 0x41 + 10)
      else if 0x61 \<le> c \<and> c \<le> 0x66 then Some (c - 0x61 + 10)
      else None)"

definition leadingOnes :: "nat \<Rightarrow> nat" where
  "leadingOnes b =
     (if b < 0x80 then 0 else if b < 0xC0 then 1 else if b < 0xE0 then 2
      else if b < 0xF0 then 3 else if b < 0xF8 then 4 else 5)"

definition appendOpt :: "'a list \<Rightarrow> 'a list option \<Rightarrow> 'a list option" where
  "appendOpt xs r = map_option ((@) xs) r"

fun decodeURILoop :: "nat \<Rightarrow> bytes \<Rightarrow> jsstring \<Rightarrow> jsstring option" where
  "decodeURILoop 0 octs [] = Some []"
| "decodeURILoop (Suc k) octs [] = None"
| "decodeURILoop 0 octs (c # h1 # h2 # rest) =
     (if c \<noteq> 0x25 then consOpt c (decodeURILoop 0 [] (h1 # h2 # rest))
      else (case (hexVal h1, hexVal h2) of
              (Some a, Some b) \<Rightarrow>
                (let B = 16 * a + b; n = leadingOnes B
                 in if n = 0 then consOpt B (decodeURILoop 0 [] rest)
                    else if n = 1 \<or> 4 < n then None
                    else decodeURILoop (n - 1) [B] rest)
            | _ \<Rightarrow> None))"
| "decodeURILoop (Suc k) octs (c # h1 # h2 # rest) =
     (if c \<noteq> 0x25 then None
      else (case (hexVal h1, hexVal h2) of
              (Some a, Some b) \<Rightarrow>
                (let octs' = octs @ [16 * a + b]
                 in if k = 0 then
                      (case utf8Loop True octs' 0 0 0x80 0xBF of
                         Some [cp] \<Rightarrow> appendOpt (utf16_of_codepoint cp) (decodeURILoop 0 [] rest)
                       | _ \<Rightarrow> None)
                    else decodeURILoop k octs' rest)
            | _ \<Rightarrow> None))"
| "decodeURILoop 0 octs (c # cs) =
     (if c \<noteq> 0x25 then consOpt c (decodeURILoop 0 [] cs) else None)"
| "decodeURILoop (Suc k) octs (c # cs) = None"

definition decodeURIComponent :: "jsstring \<Rightarrow> jsstring option" where
  "decodeURIComponent s = decodeURILoop 0 [] s"

subsection \<open>JSON values, parsed fields and the environment\<close>

text \<open>A value as \<open>JSON.parse\<close> returns it. An object is the list of its properties.\<close>

datatype json =
    JNull
  | JBool bool
  | JNum real
  | JStr jsstring
  | JArr "json list"
  | JObj "(jsstring \<times> json) list"

text \<open>Property access \<open>v.key\<close> (and \<open>v?.key\<close>) where it is used in the sources: \<open>None\<close> is
  \<open>undefined\<close>. Only an object has the properties that the sources ask for.\<close>

fun jsonGet :: "json \<Rightarrow> jsstring \<Rightarrow> json option" where
  "jsonGet (JObj props) key = map_of props key"
| "jsonGet _ key = None"

text \<open>
  Modelled from the spec: the field triple \<open>(field_number, wire_type, payload)\<close> that
  \<open>parseProtoFields\<close> (module \<open>./decoding\<close>) returns, whose declaration \<open>ProtoField\<close> (module
  \<open>./types\<close>) is not among the sources. Wire type 0 (varint) carries a number, wire type 2
  (length-delimited) a byte array; \<open>OtherField\<close> stands for a field of any other wire type.
  The tests \<open>field.wireType === 2 && field.value instanceof Uint8Array\<close> of the sources
  select a \<open>LenField\<close>, and \<open>field.wireType === 0\<close> a \<open>VarintField\<close>.
\<close>

datatype field_value = VNum int | VBytes bytes

datatype proto_field =
    VarintField int int
  | LenField int bytes
  | OtherField int int field_value

fun fieldNumber :: "proto_field \<Rightarrow> int" where
  "fieldNumber (VarintField n v) = n"
| "fieldNumber (LenField n bs) = n"
| "fieldNumber (OtherField n w p) = n"

fun wireType :: "proto_field \<Rightarrow> int" where
  "wireType (VarintField n v) = 0"
| "wireType (LenField n bs) = 2"
| "wireType (OtherField n w p) = w"

text \<open>\<open>f.value instanceof Uint8Array ? f.value.length : 0\<close>\<close>

fun valueSize :: "proto_field \<Rightarrow> nat" where
  "valueSize (VarintField n v) = 0"
| "valueSize (LenField n bs) = length bs"
| "valueSize (OtherField n w (VBytes bs)) = length bs"
| "valueSize (OtherField n w (VNum v)) = 0"

text \<open>The exec requests of module \<open>./proto/types\<close>, with the properties that the sources
  read. An optional property is an \<open>option\<close>.\<close>

datatype exec_request =
    ShellExec int "jsstring option" jsstring "jsstring option" "jsstring option"
      \<comment> \<open>\<open>id\<close>, \<open>execId\<close>, \<open>command\<close>, \<open>cwd\<close>, \<open>description\<close>\<close>
  | ReadExec int "jsstring option" jsstring
      \<comment> \<open>\<open>id\<close>, \<open>execId\<close>, \<open>path\<close>\<close>
  | LsExec int "jsstring option" jsstring
      \<comment> \<open>\<open>id\<close>, \<open>execId\<close>, \<open>path\<close>\<close>
  | GrepExec int "jsstring option" "jsstring option" "jsstring option" "jsstring option"
      \<comment> \<open>\<open>id\<close>, \<open>execId\<close>, \<open>pattern\<close>, \<open>path\<close>, \<open>glob\<close>\<close>
  | WriteExec int "jsstring option" jsstring jsstring
      \<comment> \<open>\<open>id\<close>, \<open>execId\<close>, \<open>path\<close>, \<open>fileText\<close>\<close>
  | McpExec int "jsstring option" jsstring jsstring jsstring jsstring json
      \<comment> \<open>\<open>id\<close>, \<open>execId\<close>, \<open>name\<close>, \<open>toolName\<close>, \<open>providerIdentifier\<close>, \<open>toolCallId\<close>, \<open>args\<close>\<close>
  | RequestContextExec int "jsstring option"
      \<comment> \<open>\<open>id\<close>, \<open>execId\<close>\<close>

record parsed_tool_call =
  ptcToolType :: jsstring
  ptcName :: jsstring
  ptcArguments :: json

record tool_call_update =
  tcuCallId :: jsstring
  tcuModelCallId :: jsstring
  tcuToolCall :: "parsed_tool_call option"

record partial_tool_call_update =
  ptuCallId :: jsstring
  ptuArgsTextDelta :: jsstring

text \<open>
  The environment of a run: the parsers of the modules \<open>./decoding\<close> and \<open>./proto\<close>, which
  are not among the sources, the functions \<open>JSON.parse\<close> and \<open>JSON.stringify\<close> of the
  runtime, the working directory, the clock and the network.
  \<^item> A parser returns \<open>Inl message\<close> where it throws an \<open>Error\<close>.
  \<^item> \<open>jsonParse\<close> returns \<open>None\<close> where \<open>JSON.parse\<close> throws.
  \<^item> \<open>now k\<close> is what the \<open>k\<close>-th reading of \<open>Date.now()\<close> that the stream's idle
    accounting makes returns.
  \<^item> \<open>appendFails k\<close> is \<open>Some message\<close> if the \<open>k\<close>-th \<open>BidiAppend\<close> call of the
    session throws (a response that is not ok, or a failed \<open>fetch\<close>).
  \<^item> \<open>uriErrorMessage\<close> is the message of the \<open>URIError\<close> of the runtime, and
    \<open>newRequestId\<close> the UUID that \<open>randomUUID()\<close> draws for the stream.
\<close>

record env =
  parseProtoFields :: "bytes \<Rightarrow> jsstring + proto_field list"
  parseExecServerMessage :: "bytes \<Rightarrow> jsstring + exec_request option"
  parseToolCallStartedUpdate :: "bytes \<Rightarrow> jsstring + tool_call_update"
  parsePartialToolCallUpdate :: "bytes \<Rightarrow> jsstring + partial_tool_call_update"
  jsonParse :: "jsstring \<Rightarrow> json option"
  jsonStringify :: "json \<Rightarrow> jsstring"
  processCwd :: jsstring
  now :: "nat \<Rightarrow> int"
  appendFails :: "nat \<Rightarrow> jsstring option"
  uriErrorMessage :: jsstring
  newRequestId :: jsstring

subsection \<open>Key-value messages\<close>

datatype kv_message_type = KvUnknown | GetBlobArgs | SetBlobArgs

record kv_server_message =
  kvId :: int
  messageType :: kv_message_type
  blobId :: "bytes option"
  blobData :: "bytes option"

text \<open>The two inner loops of \<open>parseKvServerMessage\<close> over \<open>argsFields\<close>.\<close>

fun getBlobArgsField :: "kv_server_message \<Rightarrow> proto_field \<Rightarrow> kv_server_message" where
  "getBlobArgsField r (LenField n bs) = (if n = 1 then r\<lparr>blobId := Some bs\<rparr> else r)"
| "getBlobArgsField r af = r"

fun setBlobArgsField :: "kv_server_message \<Rightarrow> proto_field \<Rightarrow> kv_server_message" where
  "setBlobArgsField r (LenField n bs) =
     (if n = 1 then r\<lparr>blobId := Some bs\<rparr>
      else if n = 2 then r\<lparr>blobData := Some bs\<rparr>
      else r)"
| "setBlobArgsField r af = r"

text \<open>The outer loop \<open>for (const field of fields)\<close>; a nested \<open>parseProtoFields\<close> that
  throws ends the function.\<close>

fun parseKvFields ::
  "env \<Rightarrow> proto_field list \<Rightarrow> kv_server_message \<Rightarrow> jsstring + kv_server_message" where
  "parseKvFields E [] r = Inr r"
| "parseKvFields E (VarintField n v # fs) r =
     parseKvFields E fs (if n = 1 then r\<lparr>kvId := v\<rparr> else r)"
| "parseKvFields E (LenField n bs # fs) r =
     (if n = 2 then
        (case parseProtoFields E bs of
           Inl e \<Rightarrow> Inl e
         | Inr argsFields \<Rightarrow>
             parseKvFields E fs (foldl getBlobArgsField (r\<lparr>messageType := GetBlobArgs\<rparr>) argsFields))
      else if n = 3 then
        (case parseProtoFields E bs of
           Inl e \<Rightarrow> Inl e
         | Inr argsFields \<Rightarrow>
             parseKvFields E fs (foldl setBlobArgsField (r\<lparr>messageType := SetBlobArgs\<rparr>) argsFields))
      else parseKvFields E fs r)"
| "parseKvFields E (OtherField n w p # fs) r = parseKvFields E fs r"

definition parseKvServerMessage :: "env \<Rightarrow> bytes \<Rightarrow> jsstring + kv_server_message" where
  "parseKvServerMessage E data =
     (case parseProtoFields E data of
        Inl e \<Rightarrow> Inl e
      | Inr flds \<Rightarrow>
          parseKvFields E flds
            \<lparr>kvId = 0, messageType = KvUnknown, blobId = None, blobData = None\<rparr>)"

datatype kv_result_type = GetBlobResult | SetBlobResult

definition buildKvClientMessage :: "int \<Rightarrow> kv_result_type \<Rightarrow> bytes \<Rightarrow> bytes" where
  "buildKvClientMessage ident resultType result =
     (let fieldNo = (case resultType of GetBlobResult \<Rightarrow> 2 | SetBlobResult \<Rightarrow> 3)
      in concatBytes [encodeUint32Field 1 ident, encodeMessageField fieldNo result])"

definition buildAgentClientMessageWithKv :: "bytes \<Rightarrow> bytes" where
  "buildAgentClientMessageWithKv kvClientMessage = encodeMessageField 3 kvClientMessage"

subsection \<open>Blob analysis and assistant content\<close>

record proto_entry =
  entryNum :: int
  entryWire :: int
  entrySize :: nat
  entryText :: "jsstring option"

datatype blob_analysis =
    BlobJson json jsstring
  | BlobText jsstring
  | BlobProtobuf "proto_entry list"
  | BlobBinary

datatype blob_type = TypeJson | TypeText | TypeProtobuf | TypeBinary

fun blobType :: "blob_analysis \<Rightarrow> blob_type" where
  "blobType (BlobJson j t) = TypeJson"
| "blobType (BlobText t) = TypeText"
| "blobType (BlobProtobuf fs) = TypeProtobuf"
| "blobType BlobBinary = TypeBinary"

text \<open>The body of the loop \<open>for (const f of fields)\<close> of \<open>analyzeBlobData\<close>: the text of a
  length-delimited field is its strict UTF-8 decoding, where there is one.\<close>

definition protoEntry :: "proto_field \<Rightarrow> proto_entry" where
  "protoEntry f =
     \<lparr>entryNum = fieldNumber f, entryWire = wireType f, entrySize = valueSize f,
      entryText = (case f of LenField n bs \<Rightarrow> textDecodeFatal bs | _ \<Rightarrow> None)\<rparr>"

text \<open>
  \<^verbatim>\<open>
  export function analyzeBlobData(data: Uint8Array): BlobAnalysis {
    try {
      const text = new TextDecoder('utf-8', { fatal: true }).decode(data);
      try {
        const json = JSON.parse(text) as Record<string, unknown>;
        return { type: 'json', json, text };
      } catch {
        return { type: 'text', text };
      }
    } catch { }
    try {
      const fields = parseProtoFields(data);
      if (fields.length > 0 && fields.length < 100) {
        ...
        return { type: 'protobuf', protoFields };
      }
    } catch { }
    return { type: 'binary' };
  }
  \<close>
  The private method \<open>analyzeBlobData\<close> of the service client is the same function.
\<close>

definition analyzeBlobData :: "env \<Rightarrow> bytes \<Rightarrow> blob_analysis" where
  "analyzeBlobData E data =
     (case textDecodeFatal data of
        Some text \<Rightarrow>
          (case jsonParse E text of
             Some j \<Rightarrow> BlobJson j text
           | None \<Rightarrow> BlobText text)
      | None \<Rightarrow>
          (case parseProtoFields E data of
             Inr flds \<Rightarrow>
               if 0 < length flds \<and> length flds < 100
               then BlobProtobuf (map protoEntry flds)
               else BlobBinary
           | Inl e \<Rightarrow> BlobBinary))"

text \<open>A recovered assistant text with the key of the blob it came from.\<close>

type_synonym assistant_blob = "jsstring \<times> jsstring"

text \<open>The loop over the parts of an array \<open>content\<close>: a string part is taken as it is, a
  part \<open>{type: "text", text: <string>}\<close> gives its text.\<close>

fun contentPart :: "jsstring \<Rightarrow> json \<Rightarrow> assistant_blob list" where
  "contentPart key (JStr s) = [(key, s)]"
| "contentPart key part =
     (if jsonGet part (str ''type'') = Some (JStr (str ''text''))
      then (case jsonGet part (str ''text'') of Some (JStr t) \<Rightarrow> [(key, t)] | _ \<Rightarrow> [])
      else [])"

text \<open>\<open>json.role === "assistant"\<close> and what follows from \<open>json.content\<close>.\<close>

definition assistantOfContent :: "jsstring \<Rightarrow> json \<Rightarrow> assistant_blob list" where
  "assistantOfContent key j =
     (if jsonGet j (str ''role'') = Some (JStr (str ''assistant'')) then
        (case jsonGet j (str ''content'') of
           Some (JStr content) \<Rightarrow> if 0 < length content then [(key, content)] else []
         | Some (JArr parts) \<Rightarrow> concat (map (contentPart key) parts)
         | _ \<Rightarrow> [])
      else [])"

text \<open>The loop over \<open>json.messages\<close>.\<close>

definition assistantMessage :: "jsstring \<Rightarrow> json \<Rightarrow> assistant_blob list" where
  "assistantMessage key msg =
     (if jsonGet msg (str ''role'') = Some (JStr (str ''assistant''))
      then (case jsonGet msg (str ''content'') of Some (JStr c) \<Rightarrow> [(key, c)] | _ \<Rightarrow> [])
      else [])"

definition assistantOfMessages :: "jsstring \<Rightarrow> json \<Rightarrow> assistant_blob list" where
  "assistantOfMessages key j =
     (case jsonGet j (str ''messages'') of
        Some (JArr msgs) \<Rightarrow> concat (map (assistantMessage key) msgs)
      | _ \<Rightarrow> [])"

text \<open>The protobuf branch: a field whose text has more than 50 characters and starts
  neither with \<open>{\<close> nor with \<open>[\<close>.\<close>

definition assistantOfEntry :: "jsstring \<Rightarrow> proto_entry \<Rightarrow> assistant_blob list" where
  "assistantOfEntry key field =
     (case entryText field of
        Some text \<Rightarrow>
          if 50 < length text \<and> \<not> startsWith text (str ''{'') \<and> \<not> startsWith text (str ''['')
          then [(key @ str '':f'' @ showInt (entryNum field), text)]
          else []
      | None \<Rightarrow> [])"



subsection \<open>Session ids and tool-call ids\<close>

text \<open>\<open>crypto.randomUUID().replace(/-/g, "").slice(0, 12)\<close>, as a function of the UUID drawn.\<close>

definition createSessionId :: "jsstring \<Rightarrow> jsstring" where
  "createSessionId uuid = take 12 (filter (\<lambda>c. c \<noteq> 0x2D) uuid)"

definition makeToolCallId :: "jsstring \<Rightarrow> jsstring \<Rightarrow> jsstring" where
  "makeToolCallId sessionId callBase = str ''sess_'' @ sessionId @ str ''__call_'' @ callBase"

definition isAlnum :: "nat \<Rightarrow> bool" where
  "isAlnum c = ((0x30 \<le> c \<and> c \<le> 0x39) \<or> (0x41 \<le> c \<and> c \<le> 0x5A) \<or> (0x61 \<le> c \<and> c \<le> 0x7A))"

text \<open>
  The group \<open>([a-zA-Z0-9]+)\<close> followed by \<open>__call_\<close>, matched at the start of \<open>s\<close>: the
  group is greedy and backtracks, so it is tried with \<open>n\<close> characters first, then with
  fewer, down to one; \<open>n\<close> is the length of the longest run of letters and digits.
\<close>

fun matchGroup :: "nat \<Rightarrow> jsstring \<Rightarrow> jsstring option" where
  "matchGroup 0 s = None"
| "matchGroup (Suc n) s =
     (if startsWith (drop (Suc n) s) (str ''__call_'') then Some (take (Suc n) s)
      else matchGroup n s)"

text \<open>
  \<^verbatim>\<open>
  export function parseSessionIdFromToolCallId(toolCallId: string | null | undefined): string | null {
    if (!toolCallId) return null;
    const match = toolCallId.match(/^sess_([a-zA-Z0-9]+)__call_/);
    if (!match) return null;
    return match[1] ?? null;
  }
  \<close>
\<close>

definition parseSessionIdFromToolCallId :: "jsstring option \<Rightarrow> jsstring option" where
  "parseSessionIdFromToolCallId toolCallId =
     (case toolCallId of
        None \<Rightarrow> None
      | Some s \<Rightarrow>
          if s = [] then None
          else if startsWith s (str ''sess_'')
          then matchGroup (length (takeWhile isAlnum (drop 5 s))) (drop 5 s)
          else None)"

subsection \<open>The token-expiry check of the plugin\<close>

text \<open>\<open>OAuthAuthDetails\<close>; times are milliseconds since the epoch.\<close>

record oauth_auth_details =
  refresh :: jsstring
  access :: "jsstring option"
  expires :: "int option"

text \<open>
  \<^verbatim>\<open>
  function accessTokenExpired(auth: OAuthAuthDetails): boolean {
    if (!auth.access || typeof auth.expires !== "number") {
      return true;
    }
    // Add 60 second buffer
    return auth.expires <= Date.now() + 60 * 1000;
  }
  \<close>
  The first argument is the value of \<open>Date.now()\<close>.
\<close>

definition accessTokenExpired :: "int \<Rightarrow> oauth_auth_details \<Rightarrow> bool" where
  "accessTokenExpired dateNow auth =
     (case access auth of
        None \<Rightarrow> True
      | Some a \<Rightarrow>
          if a = [] then True
          else (case expires auth of
                  None \<Rightarrow> True
                | Some e \<Rightarrow> e \<le> dateNow + 60 * 1000))"

text \<open>The predicate in the words of the spec: \<open>!access || expires_at_ms <= now + 60_000\<close>,
  where a missing expiry time is below no bound.\<close>

definition expiredAsSpecified :: "int \<Rightarrow> oauth_auth_details \<Rightarrow> bool" where
  "expiredAsSpecified dateNow auth =
     ((case access auth of None \<Rightarrow> True | Some a \<Rightarrow> a = []) \<or>
      (case expires auth of None \<Rightarrow> False | Some e \<Rightarrow> e \<le> dateNow + 60000))"

subsection \<open>Routing tool results to the session\<close>

datatype openai_role = RoleSystem | RoleUser | RoleAssistant | RoleTool




text \<open>The calls that \<open>sendToolResultsToCursor\<close> makes on \<open>session.client\<close>, with their
  arguments. Numbers that come out of a JSON text are reals.\<close>

datatype client_call =
    SendToolResult exec_request jsstring bool
      \<comment> \<open>the request; \<open>success.content\<close>, \<open>success.isError\<close>\<close>
  | SendShellResult int "jsstring option" jsstring jsstring jsstring jsstring real "real option"
      \<comment> \<open>\<open>id\<close>, \<open>execId\<close>, \<open>command\<close>, \<open>cwd\<close>, \<open>stdout\<close>, \<open>stderr\<close>, \<open>exitCode\<close>, \<open>executionTimeMs\<close>\<close>
  | SendReadResult int "jsstring option" jsstring jsstring nat nat bool
      \<comment> \<open>\<open>id\<close>, \<open>execId\<close>, \<open>content\<close>, \<open>path\<close>, \<open>totalLines\<close>, \<open>fileSize\<close>, \<open>truncated\<close>\<close>
  | SendLsResult int "jsstring option" jsstring
      \<comment> \<open>\<open>id\<close>, \<open>execId\<close>, \<open>filesString\<close>\<close>
  | SendGrepResult int "jsstring option" jsstring jsstring "jsstring list"
      \<comment> \<open>\<open>id\<close>, \<open>execId\<close>, \<open>pattern\<close>, \<open>path\<close>, \<open>files\<close>\<close>
  | SendWriteSuccess int "jsstring option" jsstring real real "jsstring option"
      \<comment> \<open>\<open>id\<close>, \<open>execId\<close>, \<open>path\<close>, \<open>linesCreated\<close>, \<open>fileSize\<close>, \<open>fileContentAfterWrite\<close>\<close>
  | SendWriteError int "jsstring option" jsstring jsstring
      \<comment> \<open>\<open>id\<close>, \<open>execId\<close>, \<open>path\<close>, \<open>error\<close>\<close>







datatype session_state = Running | WaitingTool

text \<open>\<open>SessionLike\<close>, without the iterator; \<open>clientThrows\<close> says which calls on
  \<open>session.client\<close> reject.\<close>

record session_like =
  sessionId :: jsstring
  pendingExecs :: "jsstring \<rightharpoonup> exec_request"
  createdAt :: int
  lastActivity :: int
  sessionState :: session_state
  clientThrows :: "client_call \<Rightarrow> bool"





subsection \<open>The stream: chunks, state and outbound appends\<close>

record tool_call_info =
  tciCallId :: jsstring
  tciModelCallId :: "jsstring option"
  tciToolType :: jsstring
  tciName :: jsstring
  tciArguments :: jsstring

text \<open>\<open>AgentStreamChunk\<close>, by its \<open>type\<close>.\<close>

datatype chunk =
    TextChunk jsstring
  | ToolCallStartedChunk tool_call_info
  | ToolCallCompletedChunk tool_call_info
  | PartialToolCallChunk tool_call_info jsstring
  | HeartbeatChunk
  | CheckpointChunk
  | ExecRequestChunk exec_request
  | ExecServerAbortChunk
  | InteractionQueryChunk int jsstring
  | KvBlobAssistantChunk jsstring
  | ErrorChunk jsstring
  | DoneChunk

text \<open>A thrown \<open>Error\<close>: its \<open>name\<close> and its \<open>message\<close>.\<close>

record js_error =
  errName :: jsstring
  errMessage :: jsstring

definition mkError :: "jsstring \<Rightarrow> js_error" where
  "mkError msg = \<lparr>errName = str ''Error'', errMessage = msg\<rparr>"

text \<open>What a call of one of the \<open>send\<dots>Result\<close> methods of the service client sends: the
  calls of the tool bridge, and \<open>sendRequestContextResult(id, execId)\<close>.\<close>

datatype result_send =
    ToolResultSend client_call
  | RequestContextSend int "jsstring option"

text \<open>The \<open>id\<close> that the stream-close message of a send carries.\<close>

fun execIdOf :: "exec_request \<Rightarrow> int" where
  "execIdOf (ShellExec i e c w d) = i"
| "execIdOf (ReadExec i e p) = i"
| "execIdOf (LsExec i e p) = i"
| "execIdOf (GrepExec i e pt p g) = i"
| "execIdOf (WriteExec i e p t) = i"
| "execIdOf (McpExec i e n t p c a) = i"
| "execIdOf (RequestContextExec i e) = i"

fun sendId :: "result_send \<Rightarrow> int" where
  "sendId (ToolResultSend (SendToolResult req c b)) = execIdOf req"
| "sendId (ToolResultSend (SendShellResult i e c w out err x t)) = i"
| "sendId (ToolResultSend (SendReadResult i e c p n sz tr)) = i"
| "sendId (ToolResultSend (SendLsResult i e f)) = i"
| "sendId (ToolResultSend (SendGrepResult i e pt p fs)) = i"
| "sendId (ToolResultSend (SendWriteSuccess i e p l sz c)) = i"
| "sendId (ToolResultSend (SendWriteError i e p err)) = i"
| "sendId (RequestContextSend i e) = i"

text \<open>
  The message of one \<open>BidiAppend\<close> call. The bytes of a key-value reply and of a
  stream-close are built by the encoders above; the run request and the exec results are
  built by encoders of module \<open>./proto\<close>, which are not among the sources, and are kept
  as what they encode.
\<close>

datatype outbound =
    RunRequestMsg
  | KvClientMsg bytes
  | ExecResultMsg result_send
  | StreamCloseMsg bytes

text \<open>
  The state of one service client and of the \<open>chatStream\<close> generator running on it.
  \<^item> Fields of the client object: \<open>blobStore\<close>, \<open>currentRequestId\<close>,
    \<open>currentAppendSeqno\<close>, \<open>pendingAssistantBlobs\<close>.
  \<^item> Local variables of \<open>chatStream\<close>: \<open>appendSeqno\<close>, \<open>lastProgressAt\<close>,
    \<open>heartbeatSinceProgress\<close>, \<open>hasProgress\<close>, \<open>turnEnded\<close>, \<open>hasStreamedText\<close>.
  \<^item> \<open>wire\<close> lists the \<open>BidiAppend\<close> calls made, each with its \<open>append_seqno\<close>, in the order
    they were made; \<open>clockReads\<close> counts the readings of \<open>Date.now()\<close>.
\<close>

record stream_state =
  blobStore :: "jsstring \<rightharpoonup> bytes"
  currentRequestId :: "jsstring option"
  currentAppendSeqno :: int
  pendingAssistantBlobs :: "assistant_blob list"
  appendSeqno :: int
  lastProgressAt :: int
  heartbeatSinceProgress :: nat
  hasProgress :: bool
  turnEnded :: bool
  hasStreamedText :: bool
  wire :: "(int \<times> outbound) list"
  clockReads :: nat

text \<open>
  \<^verbatim>\<open>
    const markProgress = () => {
      heartbeatSinceProgress = 0;
      lastProgressAt = Date.now();
      hasProgress = true;
    };
  \<close>
\<close>

definition markProgress :: "env \<Rightarrow> stream_state \<Rightarrow> stream_state" where
  "markProgress E st =
     st\<lparr>heartbeatSinceProgress := 0,
        lastProgressAt := now E (clockReads st),
        hasProgress := True,
        clockReads := Suc (clockReads st)\<rparr>"

text \<open>\<open>bidiAppend(requestId, appendSeqno, data)\<close>: the call is made; the second component
  is the message of the error it throws, if it throws.\<close>

definition bidiAppend ::
  "env \<Rightarrow> int \<Rightarrow> outbound \<Rightarrow> stream_state \<Rightarrow> stream_state \<times> jsstring option" where
  "bidiAppend E seqno data st =
     (st\<lparr>wire := wire st @ [(seqno, data)]\<rparr>, appendFails E (length (wire st)))"

definition blobIdToKey :: "bytes \<Rightarrow> jsstring" where
  "blobIdToKey bid = hexOfBytes bid"

text \<open>
  The analysis of a stored blob inside \<open>handleKvMessage\<close>, which pushes to
  \<open>pendingAssistantBlobs\<close>: for a JSON blob the content of an assistant message and the
  assistant messages of a \<open>messages\<close> array, for a protobuf blob the long texts.
\<close>

fun kvAssistantBlobs :: "blob_analysis \<Rightarrow> jsstring \<Rightarrow> assistant_blob list" where
  "kvAssistantBlobs (BlobJson j text) key = assistantOfContent key j @ assistantOfMessages key j"
| "kvAssistantBlobs (BlobText text) key = []"
| "kvAssistantBlobs (BlobProtobuf protoFields) key = concat (map (assistantOfEntry key) protoFields)"
| "kvAssistantBlobs BlobBinary key = []"

text \<open>
  \<open>handleKvMessage(kvMsg, requestId, appendSeqno)\<close>: the state afterwards, and either the
  message of the error thrown by \<open>bidiAppend\<close> or the sequence number returned.
  A \<open>Uint8Array\<close> is truthy even when empty, so \<open>kvMsg.blobId\<close>, \<open>kvMsg.blobData\<close> and
  \<open>data\<close> count as present whenever they are defined.
\<close>

definition handleKvMessage ::
  "env \<Rightarrow> kv_server_message \<Rightarrow> int \<Rightarrow> stream_state \<Rightarrow> stream_state \<times> (jsstring + int)" where
  "handleKvMessage E kvMsg seqno st =
     (case (messageType kvMsg, blobId kvMsg, blobData kvMsg) of
        (GetBlobArgs, Some bid, _) \<Rightarrow>
          (let key = blobIdToKey bid;
               result = (case blobStore st key of
                           Some d \<Rightarrow> encodeMessageField 1 d
                         | None \<Rightarrow> []);
               kvClientMsg = buildKvClientMessage (kvId kvMsg) GetBlobResult result;
               responseMsg = buildAgentClientMessageWithKv kvClientMsg
           in case bidiAppend E seqno (KvClientMsg responseMsg) st of
                (st', Some e) \<Rightarrow> (st', Inl e)
              | (st', None) \<Rightarrow> (st', Inr (seqno + 1)))
      | (SetBlobArgs, Some bid, Some bdata) \<Rightarrow>
          (let key = blobIdToKey bid;
               st1 = st\<lparr>blobStore := (blobStore st)(key \<mapsto> bdata)\<rparr>;
               blobAnalysis = analyzeBlobData E bdata;
               st2 = st1\<lparr>pendingAssistantBlobs :=
                            pendingAssistantBlobs st1 @ kvAssistantBlobs blobAnalysis key\<rparr>;
               kvClientMsg = buildKvClientMessage (kvId kvMsg) SetBlobResult [];
               responseMsg = buildAgentClientMessageWithKv kvClientMsg
           in case bidiAppend E seqno (KvClientMsg responseMsg) st2 of
                (st', Some e) \<Rightarrow> (st', Inl e)
              | (st', None) \<Rightarrow> (st', Inr (seqno + 1)))
      | _ \<Rightarrow> (st, Inr seqno))"

text \<open>The words by which the error of a \<open>send\<dots>Result\<close> method names the method.\<close>

fun sendKind :: "result_send \<Rightarrow> jsstring" where
  "sendKind (ToolResultSend (SendToolResult req c b)) = str ''tool''"
| "sendKind (ToolResultSend (SendShellResult i e c w out err x t)) = str ''shell''"
| "sendKind (ToolResultSend (SendReadResult i e c p n sz tr)) = str ''read''"
| "sendKind (ToolResultSend (SendLsResult i e f)) = str ''ls''"
| "sendKind (ToolResultSend (SendGrepResult i e pt p fs)) = str ''grep''"
| "sendKind (ToolResultSend (SendWriteSuccess i e p l sz c)) = str ''write''"
| "sendKind (ToolResultSend (SendWriteError i e p err)) = str ''write''"
| "sendKind (RequestContextSend i e) = str ''request context''"

definition noStreamMessage :: "result_send \<Rightarrow> jsstring" where
  "noStreamMessage r = str ''No active chat stream - cannot send '' @ sendKind r @ str '' result''"

text \<open>
  A \<open>send\<dots>Result\<close> method, all of which have the shape of
  \<^verbatim>\<open>
    if (!this.currentRequestId) {
      throw new Error("No active chat stream - cannot send tool result");
    }
    ...
    await this.bidiAppend(this.currentRequestId, this.currentAppendSeqno, responseMsg);
    this.currentAppendSeqno++;
    ...
    await this.bidiAppend(this.currentRequestId, this.currentAppendSeqno, controlResponseMsg);
    this.currentAppendSeqno++;
  \<close>
  with the name of the method in the message. The second component is the message of
  the error thrown, if any.
\<close>

definition sendResult :: "env \<Rightarrow> result_send \<Rightarrow> stream_state \<Rightarrow> stream_state \<times> jsstring option" where
  "sendResult E r st =
     (case currentRequestId st of
        None \<Rightarrow> (st, Some (noStreamMessage r))
      | Some rid \<Rightarrow>
          if rid = [] then (st, Some (noStreamMessage r))
          else
            (case bidiAppend E (currentAppendSeqno st) (ExecResultMsg r) st of
               (st1, Some e) \<Rightarrow> (st1, Some e)
             | (st1, None) \<Rightarrow>
                 (let st2 = st1\<lparr>currentAppendSeqno := currentAppendSeqno st1 + 1\<rparr>;
                      controlResponseMsg =
                        buildAgentClientMessageWithExecControl
                          (buildExecClientControlMessage (sendId r))
                  in case bidiAppend E (currentAppendSeqno st2) (StreamCloseMsg controlResponseMsg) st2 of
                       (st3, Some e) \<Rightarrow> (st3, Some e)
                     | (st3, None) \<Rightarrow>
                         (st3\<lparr>currentAppendSeqno := currentAppendSeqno st3 + 1\<rparr>, None))))"

subsection \<open>Interaction updates\<close>

record parsed_interaction_update =
  piuText :: "jsstring option"
  piuIsComplete :: bool
  piuIsHeartbeat :: bool
  piuToolCallStarted :: "tool_call_info option"
  piuToolCallCompleted :: "tool_call_info option"
  piuPartialToolCall :: "partial_tool_call_update option"

text \<open>The inner loops over the fields of a text delta or token delta: each
  length-delimited field 1 sets the text.\<close>

fun deltaTextField :: "jsstring option \<Rightarrow> proto_field \<Rightarrow> jsstring option" where
  "deltaTextField t (LenField n bs) = (if n = 1 then Some (textDecode bs) else t)"
| "deltaTextField t f = t"

definition toolCallInfoOf :: "env \<Rightarrow> tool_call_update \<Rightarrow> tool_call_info option" where
  "toolCallInfoOf E parsed =
     (case tcuToolCall parsed of
        None \<Rightarrow> None
      | Some tc \<Rightarrow>
          Some \<lparr>tciCallId = tcuCallId parsed, tciModelCallId = Some (tcuModelCallId parsed),
                tciToolType = ptcToolType tc, tciName = ptcName tc,
                tciArguments = jsonStringify E (ptcArguments tc)\<rparr>)"

text \<open>The loop \<open>for (const field of fields)\<close> of \<open>parseInteractionUpdate\<close> with its chain of
  \<open>else if\<close>; a parser that throws ends the function.\<close>

fun interactionFields ::
  "env \<Rightarrow> proto_field list \<Rightarrow> parsed_interaction_update \<Rightarrow> jsstring + parsed_interaction_update" where
  "interactionFields E [] r = Inr r"
| "interactionFields E (LenField n bs # fs) r =
     (if n = 1 then
        (case parseProtoFields E bs of
           Inl e \<Rightarrow> Inl e
         | Inr innerFields \<Rightarrow>
             interactionFields E fs (r\<lparr>piuText := foldl deltaTextField (piuText r) innerFields\<rparr>))
      else if n = 2 then
        (case parseToolCallStartedUpdate E bs of
           Inl e \<Rightarrow> Inl e
         | Inr parsed \<Rightarrow>
             interactionFields E fs
               (case toolCallInfoOf E parsed of
                  Some info \<Rightarrow> r\<lparr>piuToolCallStarted := Some info\<rparr>
                | None \<Rightarrow> r))
      else if n = 3 then
        (case parseToolCallStartedUpdate E bs of
           Inl e \<Rightarrow> Inl e
         | Inr parsed \<Rightarrow>
             interactionFields E fs
               (case toolCallInfoOf E parsed of
                  Some info \<Rightarrow> r\<lparr>piuToolCallCompleted := Some info\<rparr>
                | None \<Rightarrow> r))
      else if n = 7 then
        (case parsePartialToolCallUpdate E bs of
           Inl e \<Rightarrow> Inl e
         | Inr parsed \<Rightarrow> interactionFields E fs (r\<lparr>piuPartialToolCall := Some parsed\<rparr>))
      else if n = 8 then
        (case parseProtoFields E bs of
           Inl e \<Rightarrow> Inl e
         | Inr tokenFields \<Rightarrow>
             interactionFields E fs (r\<lparr>piuText := foldl deltaTextField (piuText r) tokenFields\<rparr>))
      else if n = 14 then interactionFields E fs (r\<lparr>piuIsComplete := True\<rparr>)
      else if n = 13 then interactionFields E fs (r\<lparr>piuIsHeartbeat := True\<rparr>)
      else interactionFields E fs r)"
| "interactionFields E (f # fs) r =
     (if fieldNumber f = 14 then interactionFields E fs (r\<lparr>piuIsComplete := True\<rparr>)
      else if fieldNumber f = 13 then interactionFields E fs (r\<lparr>piuIsHeartbeat := True\<rparr>)
      else interactionFields E fs r)"

definition parseInteractionUpdate :: "env \<Rightarrow> bytes \<Rightarrow> jsstring + parsed_interaction_update" where
  "parseInteractionUpdate E data =
     (case parseProtoFields E data of
        Inl e \<Rightarrow> Inl e
      | Inr flds \<Rightarrow>
          interactionFields E flds
            \<lparr>piuText = None, piuIsComplete = False, piuIsHeartbeat = False,
             piuToolCallStarted = None, piuToolCallCompleted = None,
             piuPartialToolCall = None\<rparr>)"

subsection \<open>Handling one server message\<close>

text \<open>A chunk that counts as progress is yielded and \<open>markProgress()\<close> is called.\<close>

definition yieldProgress ::
  "env \<Rightarrow> chunk \<Rightarrow> chunk list \<times> stream_state \<Rightarrow> chunk list \<times> stream_state" where
  "yieldProgress E c acc = (fst acc @ [c], markProgress E (snd acc))"

text \<open>
  The heartbeat branch of \<open>chatStream\<close>:
  \<^verbatim>\<open>
                  if (parsed.isHeartbeat) {
                    metrics.heartbeats++;
                    heartbeatSinceProgress++;
                    const idleMs = Date.now() - lastProgressAt;
                    const idleLimit = hasProgress ? HEARTBEAT_IDLE_MS_PROGRESS : HEARTBEAT_IDLE_MS_NOPROGRESS;
                    const beatLimit = hasProgress ? HEARTBEAT_MAX_PROGRESS : HEARTBEAT_MAX_NOPROGRESS;
                    if (heartbeatSinceProgress >= beatLimit || idleMs >= idleLimit) {
                      turnEnded = true;
                    } else {
                      yield { type: "heartbeat" };
                    }
                  }
  \<close>
\<close>

definition HEARTBEAT_IDLE_MS_PROGRESS :: int where
  "HEARTBEAT_IDLE_MS_PROGRESS = 120000"

definition HEARTBEAT_MAX_PROGRESS :: nat where
  "HEARTBEAT_MAX_PROGRESS = 1000"

definition HEARTBEAT_IDLE_MS_NOPROGRESS :: int where
  "HEARTBEAT_IDLE_MS_NOPROGRESS = 180000"

definition HEARTBEAT_MAX_NOPROGRESS :: nat where
  "HEARTBEAT_MAX_NOPROGRESS = 1000"

definition heartbeatStep ::
  "env \<Rightarrow> chunk list \<times> stream_state \<Rightarrow> chunk list \<times> stream_state" where
  "heartbeatStep E acc =
     (let st = snd acc;
          beats = Suc (heartbeatSinceProgress st);
          idleMs = now E (clockReads st) - lastProgressAt st;
          idleLimit = (if hasProgress st then HEARTBEAT_IDLE_MS_PROGRESS
                       else HEARTBEAT_IDLE_MS_NOPROGRESS);
          beatLimit = (if hasProgress st then HEARTBEAT_MAX_PROGRESS
                       else HEARTBEAT_MAX_NOPROGRESS);
          st' = st\<lparr>heartbeatSinceProgress := beats, clockReads := Suc (clockReads st)\<rparr>
      in if beatLimit \<le> beats \<or> idleLimit \<le> idleMs
         then (fst acc, st'\<lparr>turnEnded := True\<rparr>)
         else (fst acc @ [HeartbeatChunk], st'))"

text \<open>The steps that follow \<open>parseInteractionUpdate\<close>, in the order of the source: text,
  tool call started, tool call completed, partial tool call, turn end, heartbeat.\<close>

definition textStep ::
  "env \<Rightarrow> parsed_interaction_update \<Rightarrow> chunk list \<times> stream_state \<Rightarrow> chunk list \<times> stream_state" where
  "textStep E parsed acc =
     (case piuText parsed of
        None \<Rightarrow> acc
      | Some t \<Rightarrow>
          if t = [] then acc
          else (fst acc @ [TextChunk t], markProgress E ((snd acc)\<lparr>hasStreamedText := True\<rparr>)))"

definition startedStep ::
  "env \<Rightarrow> parsed_interaction_update \<Rightarrow> chunk list \<times> stream_state \<Rightarrow> chunk list \<times> stream_state" where
  "startedStep E parsed acc =
     (case piuToolCallStarted parsed of
        None \<Rightarrow> acc
      | Some info \<Rightarrow> yieldProgress E (ToolCallStartedChunk info) acc)"

definition completedStep ::
  "env \<Rightarrow> parsed_interaction_update \<Rightarrow> chunk list \<times> stream_state \<Rightarrow> chunk list \<times> stream_state" where
  "completedStep E parsed acc =
     (case piuToolCallCompleted parsed of
        None \<Rightarrow> acc
      | Some info \<Rightarrow> yieldProgress E (ToolCallCompletedChunk info) acc)"

definition partialStep ::
  "env \<Rightarrow> parsed_interaction_update \<Rightarrow> chunk list \<times> stream_state \<Rightarrow> chunk list \<times> stream_state" where
  "partialStep E parsed acc =
     (case piuPartialToolCall parsed of
        None \<Rightarrow> acc
      | Some p \<Rightarrow>
          yieldProgress E
            (PartialToolCallChunk
               \<lparr>tciCallId = ptuCallId p, tciModelCallId = None, tciToolType = str ''partial'',
                tciName = str ''partial'', tciArguments = []\<rparr>
               (ptuArgsTextDelta p))
            acc)"

definition completeStep ::
  "parsed_interaction_update \<Rightarrow> chunk list \<times> stream_state \<Rightarrow> chunk list \<times> stream_state" where
  "completeStep parsed acc =
     (if piuIsComplete parsed then (fst acc, (snd acc)\<lparr>turnEnded := True\<rparr>) else acc)"

definition progressSteps ::
  "env \<Rightarrow> parsed_interaction_update \<Rightarrow> stream_state \<Rightarrow> chunk list \<times> stream_state" where
  "progressSteps E parsed st =
     partialStep E parsed (completedStep E parsed (startedStep E parsed (textStep E parsed ([], st))))"

definition handleInteractionUpdate ::
  "env \<Rightarrow> parsed_interaction_update \<Rightarrow> stream_state \<Rightarrow> chunk list \<times> stream_state" where
  "handleInteractionUpdate E parsed st =
     (let acc = completeStep parsed (progressSteps E parsed st)
      in if piuIsHeartbeat parsed then heartbeatStep E acc else acc)"

text \<open>The chunk of the \<open>catch (parseErr)\<close> around the handling of one field.\<close>

definition parseErrorChunk :: "int \<Rightarrow> jsstring \<Rightarrow> chunk" where
  "parseErrorChunk n msg =
     ErrorChunk (str ''Parse error in field '' @ showInt n @ str '': '' @ msg)"

text \<open>
  The loop over the fields of an \<open>exec_server_control_message\<close>: each length-delimited
  field 1 is parsed and yields an abort chunk. The result is the number of chunks
  yielded and the message of the parser's error, if it threw.
\<close>

fun abortLoop :: "env \<Rightarrow> proto_field list \<Rightarrow> nat \<times> jsstring option" where
  "abortLoop E [] = (0, None)"
| "abortLoop E (LenField n bs # cfs) =
     (if n = 1 then
        (case parseProtoFields E bs of
           Inl e \<Rightarrow> (0, Some e)
         | Inr abortFields \<Rightarrow> (case abortLoop E cfs of (k, r) \<Rightarrow> (Suc k, r)))
      else abortLoop E cfs)"
| "abortLoop E (cf # cfs) = abortLoop E cfs"

text \<open>The loop over the fields of an \<open>interaction_query\<close>, with its chain of \<open>else if\<close>.\<close>

fun queryField :: "int \<times> jsstring \<Rightarrow> proto_field \<Rightarrow> int \<times> jsstring" where
  "queryField (queryId, queryType) (VarintField n v) =
     (if n = 1 then (v, queryType) else (queryId, queryType))"
| "queryField (queryId, queryType) (LenField n bs) =
     (if n = 2 then (queryId, str ''web_search'')
      else if n = 3 then (queryId, str ''ask_question'')
      else if n = 4 then (queryId, str ''switch_mode'')
      else if n = 5 then (queryId, str ''exa_search'')
      else if n = 6 then (queryId, str ''exa_fetch'')
      else (queryId, queryType))"
| "queryField (queryId, queryType) (OtherField n w p) = (queryId, queryType)"

text \<open>
  The body of \<open>for (const field of serverMsgFields) { try { \<dots> } catch (parseErr) { \<dots> } }\<close>:
  field 1 is an interaction update, field 3 a checkpoint, field 2 an exec request,
  field 4 a key-value message, field 5 an abort from the server, field 7 a query.
  An error thrown inside is caught and yielded as a chunk; the state is as the throw
  left it.
\<close>

definition handleField :: "env \<Rightarrow> proto_field \<Rightarrow> stream_state \<Rightarrow> chunk list \<times> stream_state" where
  "handleField E field st =
     (case field of
        LenField n bs \<Rightarrow>
          if n = 1 then
            (case parseInteractionUpdate E bs of
               Inl e \<Rightarrow> ([parseErrorChunk n e], st)
             | Inr parsed \<Rightarrow> handleInteractionUpdate E parsed st)
          else if n = 3 then
            (case parseProtoFields E bs of
               Inl e \<Rightarrow> ([parseErrorChunk n e], st)
             | Inr checkpointFields \<Rightarrow> yieldProgress E CheckpointChunk ([], st))
          else if n = 2 then
            (case parseExecServerMessage E bs of
               Inl e \<Rightarrow> ([parseErrorChunk n e], st)
             | Inr (Some execRequest) \<Rightarrow> yieldProgress E (ExecRequestChunk execRequest) ([], st)
             | Inr None \<Rightarrow>
                 (case parseProtoFields E bs of
                    Inl e \<Rightarrow> ([parseErrorChunk n e], st)
                  | Inr execFields \<Rightarrow> ([], st)))
          else if n = 4 then
            (case parseKvServerMessage E bs of
               Inl e \<Rightarrow> ([parseErrorChunk n e], st)
             | Inr kvMsg \<Rightarrow>
                 (case handleKvMessage E kvMsg (appendSeqno st) st of
                    (st', Inl e) \<Rightarrow> ([parseErrorChunk n e], st')
                  | (st', Inr seqno) \<Rightarrow>
                      ([], st'\<lparr>appendSeqno := seqno, currentAppendSeqno := seqno\<rparr>)))
          else if n = 5 then
            (case parseProtoFields E bs of
               Inl e \<Rightarrow> ([parseErrorChunk n e], st)
             | Inr controlFields \<Rightarrow>
                 (case abortLoop E controlFields of
                    (k, Some e) \<Rightarrow> (replicate k ExecServerAbortChunk @ [parseErrorChunk n e], st)
                  | (k, None) \<Rightarrow> (replicate k ExecServerAbortChunk, markProgress E st)))
          else if n = 7 then
            (case parseProtoFields E bs of
               Inl e \<Rightarrow> ([parseErrorChunk n e], st)
             | Inr queryFields \<Rightarrow>
                 (case foldl queryField (0, str ''unknown'') queryFields of
                    (queryId, queryType) \<Rightarrow>
                      yieldProgress E (InteractionQueryChunk queryId queryType) ([], st)))
          else ([], st)
      | _ \<Rightarrow> ([], st))"

text \<open>The loop over the fields of one server message.\<close>

fun handleMessage :: "env \<Rightarrow> proto_field list \<Rightarrow> stream_state \<Rightarrow> chunk list \<times> stream_state" where
  "handleMessage E [] st = ([], st)"
| "handleMessage E (field # rest) st =
     (case handleField E field st of
        (cs, st') \<Rightarrow> (case handleMessage E rest st' of (cs', st'') \<Rightarrow> (cs @ cs', st'')))"

subsection \<open>Frames\<close>

text \<open>\<open>buffer[i] ?? 0\<close>, and \<open>Uint8Array.prototype.slice(start, end)\<close> with its treatment of
  negative and too large indices.\<close>

definition byteAt :: "bytes \<Rightarrow> int \<Rightarrow> int" where
  "byteAt buffer i = (if 0 \<le> i \<and> i < int (length buffer) then int (buffer ! nat i) else 0)"

definition sliceIndex :: "int \<Rightarrow> int \<Rightarrow> int" where
  "sliceIndex len i = (if i < 0 then max (len + i) 0 else min i len)"

definition jsSlice :: "bytes \<Rightarrow> int \<Rightarrow> int \<Rightarrow> bytes" where
  "jsSlice buffer start end =
     (let len = int (length buffer);
          k = sliceIndex len start;
          final = sliceIndex len end
      in take (nat (final - k)) (drop (nat k) buffer))"

text \<open>\<open>(b1 << 24) | (b2 << 16) | (b3 << 8) | b4\<close>, a signed 32-bit number.\<close>

definition frameLength :: "int \<Rightarrow> int \<Rightarrow> int \<Rightarrow> int \<Rightarrow> int" where
  "frameLength b1 b2 b3 b4 =
     toInt32 (toInt32 (push_bit 24 b1) OR toInt32 (push_bit 16 b2) OR toInt32 (push_bit 8 b3) OR b4)"

text \<open>
  \<open>trailer.match(/grpc-message:\s*([^\r\n]+)/)?.[1]\<close>. At an occurrence of
  \<open>grpc-message:\<close> the white space after it is skipped and the group is the run of
  characters up to the next line break; when only white space follows up to the end of
  the text, the expression backtracks and the group is the last white-space character
  that is not a line break. Without a match at one occurrence the next one is tried.
\<close>

definition isLineBreak :: "nat \<Rightarrow> bool" where
  "isLineBreak c = (c = 0x0D \<or> c = 0x0A)"

definition messageGroup :: "jsstring \<Rightarrow> jsstring option" where
  "messageGroup rest =
     (let after = dropWhile isJsSpace rest
      in if after \<noteq> [] then Some (takeWhile (\<lambda>c. \<not> isLineBreak c) after)
         else (case dropWhile isLineBreak (rev rest) of
                 [] \<Rightarrow> None
               | c # cs \<Rightarrow> Some [c]))"

fun grpcMessageMatch :: "jsstring \<Rightarrow> jsstring option" where
  "grpcMessageMatch [] = None"
| "grpcMessageMatch (c # cs) =
     (if startsWith (c # cs) (str ''grpc-message:'')
      then (case messageGroup (drop 13 (c # cs)) of
              Some g \<Rightarrow> Some g
            | None \<Rightarrow> grpcMessageMatch cs)
      else grpcMessageMatch cs)"

text \<open>
  The trailer branch:
  \<^verbatim>\<open>
            if ((flags ?? 0) & 0x80) {
              const trailer = new TextDecoder().decode(frameData);
              if (trailer.includes("grpc-status:") && !trailer.includes("grpc-status: 0")) {
                const match = trailer.match(/grpc-message:\s*([^\r\n]+)/);
                const errorMsg = decodeURIComponent(match?.[1] ?? "Unknown gRPC error");
                console.error("gRPC error:", errorMsg);
                yield { type: "error", error: errorMsg };
              }
              continue;
            }
  \<close>
  \<open>Inl\<close> is the \<open>URIError\<close> of \<open>decodeURIComponent\<close>, which no \<open>try\<close> inside the loop
  catches.
\<close>

definition handleTrailer :: "env \<Rightarrow> bytes \<Rightarrow> js_error + chunk list" where
  "handleTrailer E frameData =
     (let trailer = textDecode frameData
      in if jsIncludes trailer (str ''grpc-status:'') \<and> \<not> jsIncludes trailer (str ''grpc-status: 0'')
         then (case decodeURIComponent
                      (case grpcMessageMatch trailer of
                         Some m \<Rightarrow> m
                       | None \<Rightarrow> str ''Unknown gRPC error'') of
                 Some errorMsg \<Rightarrow> Inr [ErrorChunk errorMsg]
               | None \<Rightarrow> Inl \<lparr>errName = str ''URIError'', errMessage = uriErrorMessage E\<rparr>)
         else Inr [])"

datatype loop_exit = Continue int | Thrown js_error | OutOfFuel

definition withChunks ::
  "chunk list \<Rightarrow> chunk list \<times> stream_state \<times> 'x \<Rightarrow> chunk list \<times> stream_state \<times> 'x" where
  "withChunks cs r = (case r of (cs', st, x) \<Rightarrow> (cs @ cs', st, x))"

text \<open>
  The loop \<open>while (offset + 5 <= buffer.length)\<close> over the frames in the buffer. A frame
  with a negative length does not move \<open>offset\<close> forward, so the loop need not end: the
  first argument bounds the number of iterations, and \<open>OutOfFuel\<close> says that the bound
  was reached. Otherwise the loop ends with the \<open>offset\<close> it reached, or with the error
  thrown outside every inner \<open>try\<close>.
\<close>

fun frameLoop ::
  "nat \<Rightarrow> env \<Rightarrow> bytes \<Rightarrow> int \<Rightarrow> stream_state \<Rightarrow> chunk list \<times> stream_state \<times> loop_exit" where
  "frameLoop 0 E buffer offset st = ([], st, OutOfFuel)"
| "frameLoop (Suc fuel) E buffer offset st =
     (if \<not> (offset + 5 \<le> int (length buffer)) then ([], st, Continue offset)
      else
        (let flags = byteAt buffer offset;
             b1 = byteAt buffer (offset + 1);
             b2 = byteAt buffer (offset + 2);
             b3 = byteAt buffer (offset + 3);
             b4 = byteAt buffer (offset + 4);
             len = frameLength b1 b2 b3 b4
         in if offset + 5 + len > int (length buffer) then ([], st, Continue offset)
            else
              (let frameData = jsSlice buffer (offset + 5) (offset + 5 + len);
                   offset' = offset + (5 + len)
               in if flags AND 0x80 \<noteq> 0 then
                    (case handleTrailer E frameData of
                       Inl err \<Rightarrow> ([], st, Thrown err)
                     | Inr cs \<Rightarrow> withChunks cs (frameLoop fuel E buffer offset' st))
                  else
                    (case parseProtoFields E frameData of
                       Inl e \<Rightarrow> ([], st, Thrown (mkError e))
                     | Inr serverMsgFields \<Rightarrow>
                         (case handleMessage E serverMsgFields st of
                            (cs, st') \<Rightarrow>
                              if turnEnded st' then (cs, st', Continue offset')
                              else withChunks cs (frameLoop fuel E buffer offset' st'))))))"

subsection \<open>The stream\<close>

text \<open>What happens while the generator runs: the reader delivers bytes, the reader
  throws, or the consumer, holding a chunk, calls a \<open>send\<dots>Result\<close> method of the
  client. The end of the list is the end of the response body.\<close>

datatype stream_event =
    Data bytes
  | ReadFails js_error
  | ConsumerSend result_send

datatype read_exit = Finished | Failed js_error | Diverged

text \<open>
  The loop \<open>while (!turnEnded) { const { done, value } = await reader.read(); \<dots> }\<close>.
  A send of the consumer is placed between two reads.
\<close>

fun readLoop ::
  "nat \<Rightarrow> env \<Rightarrow> stream_event list \<Rightarrow> bytes \<Rightarrow> stream_state \<Rightarrow>
   chunk list \<times> stream_state \<times> read_exit" where
  "readLoop fuel E [] buffer st =
     (if turnEnded st then ([], st, Finished) else ([DoneChunk], st, Finished))"
| "readLoop fuel E (ev # evs) buffer st =
     (if turnEnded st then ([], st, Finished)
      else
        (case ev of
           ReadFails err \<Rightarrow> ([], st, Failed err)
         | ConsumerSend r \<Rightarrow> readLoop fuel E evs buffer (fst (sendResult E r st))
         | Data val \<Rightarrow>
             (let buffer' = buffer @ val
              in case frameLoop fuel E buffer' 0 st of
                   (cs, st', Continue offset) \<Rightarrow>
                     withChunks cs
                       (readLoop fuel E evs (jsSlice buffer' offset (int (length buffer'))) st')
                 | (cs, st', Thrown err) \<Rightarrow> (cs, st', Failed err)
                 | (cs, st', OutOfFuel) \<Rightarrow> (cs, st', Diverged))))"

text \<open>
  The clean exit:
  \<^verbatim>\<open>
        if (turnEnded) {
          controller.abort(); // Clean up the connection
          logTimingMetrics(metrics);
          if (!hasStreamedText && this.pendingAssistantBlobs.length > 0) {
            for (const blob of this.pendingAssistantBlobs) {
              yield { type: "kv_blob_assistant", blobContent: blob.content };
            }
          }
          yield { type: "done" };
        }
  \<close>
\<close>

definition cleanExit :: "stream_state \<Rightarrow> chunk list" where
  "cleanExit st =
     (if turnEnded st then
        (if \<not> hasStreamedText st \<and> 0 < length (pendingAssistantBlobs st)
         then map (\<lambda>blob. KvBlobAssistantChunk (snd blob)) (pendingAssistantBlobs st)
         else []) @ [DoneChunk]
      else [])"

text \<open>The outer \<open>catch (err)\<close>: an \<open>AbortError\<close> ends the generator silently, any other
  error is yielded with \<open>error.message || String(err)\<close>.\<close>

definition outerCatch :: "js_error \<Rightarrow> chunk list" where
  "outerCatch err =
     (if errName err = str ''AbortError'' then []
      else [ErrorChunk (if errMessage err \<noteq> [] then errMessage err else errName err)])"

text \<open>The response of the \<open>RunSSE\<close> call: the \<open>fetch\<close> rejects, the status is not ok, there
  is no body, or there is a body, read as a list of events.\<close>

datatype sse_response =
    SseFetchFails js_error
  | SseNotOk int jsstring
  | SseNoBody
  | SseBody "stream_event list"

text \<open>
  \<open>chatStream(request)\<close> on a client in state \<open>client\<close>: the chunks yielded and the state
  at the end, or \<open>None\<close> when the frame loop exceeds the bound \<open>fuel\<close> on its iterations.
  The request is sent as the first \<open>BidiAppend\<close>, with sequence number 0. The local
  variables \<open>turnEnded\<close> and \<open>hasStreamedText\<close>, which the generator declares once it has a
  reader, are \<open>false\<close> from the start.
\<close>

definition chatStream ::
  "nat \<Rightarrow> env \<Rightarrow> sse_response \<Rightarrow> stream_state \<Rightarrow> (chunk list \<times> stream_state) option" where
  "chatStream fuel E sse client =
     (let st0 = client\<lparr>appendSeqno := 0,
                       lastProgressAt := now E (clockReads client),
                       clockReads := Suc (clockReads client),
                       heartbeatSinceProgress := 0,
                       hasProgress := False,
                       turnEnded := False,
                       hasStreamedText := False,
                       currentRequestId := Some (newRequestId E),
                       currentAppendSeqno := 0\<rparr>
      in case bidiAppend E 0 RunRequestMsg st0 of
           (st1, Some e) \<Rightarrow>
             Some (outerCatch (mkError e), st1\<lparr>appendSeqno := 1, currentRequestId := None\<rparr>)
         | (st1, None) \<Rightarrow>
             (let st2 = st1\<lparr>appendSeqno := 1, currentAppendSeqno := 1\<rparr>
              in case sse of
                   SseFetchFails err \<Rightarrow> Some (outerCatch err, st2\<lparr>currentRequestId := None\<rparr>)
                 | SseNotOk status errorText \<Rightarrow>
                     Some ([ErrorChunk (str ''SSE stream failed: '' @ showInt status @ str '' - '' @
                                         errorText)], st2)
                 | SseNoBody \<Rightarrow> Some ([ErrorChunk (str ''No response body from SSE stream'')], st2)
                 | SseBody events \<Rightarrow>
                     (let st3 = st2\<lparr>pendingAssistantBlobs := []\<rparr>
                      in case readLoop fuel E events [] st3 of
                           (cs, st', Finished) \<Rightarrow>
                             Some (cs @ cleanExit st', st'\<lparr>currentRequestId := None\<rparr>)
                         | (cs, st', Failed err) \<Rightarrow>
                             Some (cs @ outerCatch err, st'\<lparr>currentRequestId := None\<rparr>)
                         | (cs, st', Diverged) \<Rightarrow> None)))"

text \<open>The \<open>append_seqno\<close> values of the \<open>BidiAppend\<close> calls made, in order.\<close>

definition wireSeqnos :: "stream_state \<Rightarrow> int list" where
  "wireSeqnos st = map fst (wire st)"

text \<open>A client that has not run a stream yet.\<close>

definition newClient :: stream_state where
  "newClient =
     \<lparr>blobStore = Map.empty, currentRequestId = None, currentAppendSeqno = 0,
      pendingAssistantBlobs = [], appendSeqno = 0, lastProgressAt = 0,
      heartbeatSinceProgress = 0, hasProgress = False, turnEnded = False,
      hasStreamedText = False, wire = [], clockReads = 0\<rparr>"

text \<open>A frame as it arrives: the flags, the length as four bytes, the payload.\<close>

definition frameOf :: "nat \<Rightarrow> bytes \<Rightarrow> bytes" where
  "frameOf flags payload =
     [flags, (length payload div 16777216) mod 256, (length payload div 65536) mod 256,
      (length payload div 256) mod 256, length payload mod 256] @ payload"

subsection \<open>Kinds of chunks\<close>

fun isTextChunk :: "chunk \<Rightarrow> bool" where
  "isTextChunk (TextChunk t) = True"
| "isTextChunk c = False"

fun isBlobChunk :: "chunk \<Rightarrow> bool" where
  "isBlobChunk (KvBlobAssistantChunk t) = True"
| "isBlobChunk c = False"



text \<open>The idle limit of the phase that a state is in.\<close>

definition idleLimit :: "stream_state \<Rightarrow> int" where
  "idleLimit st = (if hasProgress st then 120000 else 180000)"


text \<open>What the chunks of a step say about the flag \<open>hasStreamedText\<close>: the flag is set only
  by a step that yields a text chunk, and no step inside the loops yields \<open>done\<close> or a
  recovered blob.\<close>

definition streamedOk :: "bool \<Rightarrow> chunk list \<times> stream_state \<Rightarrow> bool" where
  "streamedOk h acc =
     ((hasStreamedText (snd acc) \<longrightarrow> h \<or> list_ex isTextChunk (fst acc)) \<and>
      DoneChunk \<notin> set (fst acc) \<and> \<not> list_ex isBlobChunk (fst acc))"


subsection \<open>An environment for concrete runs\<close>

text \<open>
  Modelled from the spec: \<open>parseProtoFields\<close> of module \<open>./decoding\<close>, which is not among
  the sources. The spec has: a varint is little-endian base 128 and the high bit of each
  byte signals continuation; the decoder refuses a varint of more than 10 bytes; a tag is
  \<open>(field_number << 3) | wire_type\<close> as a varint; the wire types in use are 0 (varint) and
  2 (length-prefixed bytes); a malformed varint or a truncated length-delimited payload
  fails the parse. A field of another wire type fails the parse here.
  This parser serves the concrete runs below; every general statement holds for an
  arbitrary environment.
\<close>

fun readVarintSpec :: "nat \<Rightarrow> bytes \<Rightarrow> int \<Rightarrow> nat \<Rightarrow> (int \<times> bytes) option" where
  "readVarintSpec k [] val shift = None"
| "readVarintSpec k (b # rest) val shift =
     (if 10 \<le> k then None
      else (let val' = val + int (b mod 128) * 2 ^ shift
            in if b < 128 then Some (val', rest)
               else readVarintSpec (Suc k) rest val' (shift + 7)))"

function parseFieldsSpec :: "bytes \<Rightarrow> jsstring + proto_field list" where
  "parseFieldsSpec [] = Inr []"
| "parseFieldsSpec (b # bs) =
     (case readVarintSpec 0 (b # bs) 0 0 of
        None \<Rightarrow> Inl (str ''malformed varint'')
      | Some (tag, rest) \<Rightarrow>
          if tag mod 8 = 0 then
            (case readVarintSpec 0 rest 0 0 of
               None \<Rightarrow> Inl (str ''malformed varint'')
             | Some (v, rest') \<Rightarrow>
                 (case parseFieldsSpec rest' of
                    Inl e \<Rightarrow> Inl e
                  | Inr fs \<Rightarrow> Inr (VarintField (tag div 8) v # fs)))
          else if tag mod 8 = 2 then
            (case readVarintSpec 0 rest 0 0 of
               None \<Rightarrow> Inl (str ''malformed varint'')
             | Some (len, rest') \<Rightarrow>
                 if length rest' < nat len then Inl (str ''truncated field'')
                 else (case parseFieldsSpec (drop (nat len) rest') of
                         Inl e \<Rightarrow> Inl e
                       | Inr fs \<Rightarrow> Inr (LenField (tag div 8) (take (nat len) rest') # fs)))
          else Inl (str ''unsupported wire type''))"
  by pat_completeness auto
termination
proof (relation "measure length")
  have shorter: "length rest < length bs"
    if "readVarintSpec k bs val shift = Some (v, rest)" for k bs val shift v rest
    using that
  proof (induction bs arbitrary: k val shift)
    case Nil
    then show ?case by simp
  next
    case (Cons b bs)
    show ?case
    proof (cases "b < 128")
      case True
      with Cons.prems show ?thesis by (simp add: Let_def split: if_splits)
    next
      case False
      with Cons.prems have "readVarintSpec (Suc k) bs (val + int (b mod 128) * 2 ^ shift) (shift + 7) = Some (v, rest)"
        by (simp add: Let_def split: if_splits)
      then have "length rest < length bs" by (rule Cons.IH)
      then show ?thesis by simp
    qed
  qed
  show "wf (measure length)" by simp
  show "(rest', b # bs) \<in> measure length"
    if "readVarintSpec 0 (b # bs) 0 0 = Some x2" "(tag, rest) = x2"
       "readVarintSpec 0 rest 0 0 = Some x2a" "(v, rest') = x2a"
    for b bs x2 tag rest x2a v rest'
  proof -
    have "length rest < length (b # bs)" using that(1,2) shorter [of 0 "b # bs" 0 0 tag rest] by simp
    moreover have "length rest' < length rest" using that(3,4) shorter [of 0 rest 0 0 v rest'] by simp
    ultimately show ?thesis by simp
  qed
  show "(drop (nat len) rest', b # bs) \<in> measure length"
    if "readVarintSpec 0 (b # bs) 0 0 = Some x2" "(tag, rest) = x2"
       "readVarintSpec 0 rest 0 0 = Some x2a" "(len, rest') = x2a"
    for b bs x2 tag rest x2a len rest'
  proof -
    have "length rest < length (b # bs)" using that(1,2) shorter [of 0 "b # bs" 0 0 tag rest] by simp
    moreover have "length rest' < length rest" using that(3,4) shorter [of 0 rest 0 0 len rest'] by simp
    ultimately show ?thesis by simp
  qed
qed

definition parseProtoFieldsSpec :: "bytes \<Rightarrow> jsstring + proto_field list" where
  "parseProtoFieldsSpec data = parseFieldsSpec data"

text \<open>The environment of the concrete runs: the parser above; no exec request, tool call
  or partial tool call is recognised; \<open>JSON.parse\<close> is given by its value on the one text
  that the runs parse, \<open>{"role":"assistant","content":"hi"}\<close>, and fails on every other
  text that occurs in them; the clock stands at the given time; no \<open>BidiAppend\<close> fails.\<close>

definition assistantJsonText :: jsstring where
  "assistantJsonText =
     [0x7B] @ [0x22] @ str ''role'' @ [0x22, 0x3A, 0x22] @ str ''assistant'' @ [0x22, 0x2C, 0x22] @
     str ''content'' @ [0x22, 0x3A, 0x22] @ str ''hi'' @ [0x22, 0x7D]"

definition specEnv :: "int \<Rightarrow> env" where
  "specEnv t =
     \<lparr>parseProtoFields = parseProtoFieldsSpec,
      parseExecServerMessage = (\<lambda>data. Inr None),
      parseToolCallStartedUpdate =
        (\<lambda>data. Inr \<lparr>tcuCallId = [], tcuModelCallId = [], tcuToolCall = None\<rparr>),
      parsePartialToolCallUpdate = (\<lambda>data. Inr \<lparr>ptuCallId = [], ptuArgsTextDelta = []\<rparr>),
      jsonParse =
        (\<lambda>text. if text = assistantJsonText
               then Some (JObj [(str ''role'', JStr (str ''assistant'')),
                                (str ''content'', JStr (str ''hi''))])
               else None),
      jsonStringify = (\<lambda>j. []),
      processCwd = str ''/'',
      now = (\<lambda>k. t),
      appendFails = (\<lambda>k. None),
      uriErrorMessage = str ''URI malformed'',
      newRequestId = str ''req-1''\<rparr>"

section \<open>Properties\<close>

subsection \<open>Varint\<close>

lemma mask7_int: "mask 7 = (127::int)"
  by (simp add: mask_eq_exp_minus_1)

lemma mask7_nat: "mask 7 = (127::nat)"
  by (simp add: mask_eq_exp_minus_1)

lemma low7_split: "(v AND 127) OR push_bit 7 (drop_bit 7 v) = (v::int)"
proof -
  have "(v AND mask 7) OR push_bit 7 (drop_bit 7 v) = v"
  proof (rule bit_eqI)
    fix n
    show "bit (v AND mask 7 OR push_bit 7 (drop_bit 7 v)) n = bit v n"
      by (cases "n < 7") (auto simp: bit_simps)
  qed
  then show ?thesis by (simp only: mask7_int)
qed

lemma and127_int: "(v::int) AND 127 = v mod 128"
proof -
  have "v AND mask 7 = take_bit 7 v" by (simp only: take_bit_eq_mask)
  also have "\<dots> = v mod 2 ^ 7" by (rule take_bit_eq_mod)
  finally have "v AND mask 7 = v mod 2 ^ 7" .
  then show ?thesis by (simp only: mask7_int) simp
qed

lemma and127_nat: "(b::nat) AND 127 = b mod 128"
proof -
  have "b AND mask 7 = take_bit 7 b" by (simp only: take_bit_eq_mask)
  also have "\<dots> = b mod 2 ^ 7" by (rule take_bit_eq_mod)
  finally have "b AND mask 7 = b mod 2 ^ 7" .
  then show ?thesis by (simp only: mask7_nat) simp
qed

lemma low7_nat: "nat (v AND 127) < 128"
  by (simp add: and127_int)

lemma and128_nat: "((b::nat) AND 128 = 0) = even (b div 128)"
proof -
  have "(b AND 2 ^ 7 = 0) = (\<not> bit b 7)" by (rule and_exp_eq_0_iff_not_bit)
  then show ?thesis by (simp add: bit_iff_odd)
qed

lemma or128_nat: "b < 128 \<Longrightarrow> (b::nat) OR 128 = b + 128"
proof -
  assume b: "b < 128"
  then have "b AND 128 = 0" by (simp add: and128_nat)
  then show ?thesis by (simp add: disjunctive_add_eq_or)
qed

text \<open>Every byte the encoder writes fits a \<open>Uint8Array\<close> element.\<close>

lemma encodeVarint_bytes: "\<forall>b \<in> set (encodeVarint v). b < 256"
proof (induction v rule: encodeVarint.induct)
  case (1 v)
  have b: "nat (v AND 127) < 128" by (rule low7_nat)
  show ?case
  proof (cases "drop_bit 7 v > 0")
    case True
    then show ?thesis using "1.IH" b
      by (subst encodeVarint.simps) (simp add: or128_nat)
  next
    case False
    then show ?thesis using b by (subst encodeVarint.simps) simp
  qed
qed

text \<open>The reader undoes the encoder, whatever the accumulator and shift it starts from and
  whatever bytes follow.\<close>

lemma decodeVarintLoop_encodeVarint:
  "0 \<le> v \<Longrightarrow> decodeVarintLoop (encodeVarint v @ rest) acc s = (acc OR push_bit s v, rest)"
proof (induction v arbitrary: acc s rule: encodeVarint.induct)
  case (1 v)
  let ?b = "nat (v AND 127)"
  have b: "?b < 128" by (rule low7_nat)
  have bint: "int ?b = v AND 127" by (simp add: and127_int)
  show ?case
  proof (cases "drop_bit 7 v > 0")
    case True
    have nn: "0 \<le> drop_bit 7 v" using True by linarith
    have enc: "encodeVarint v = (?b OR 128) # encodeVarint (drop_bit 7 v)"
      using True by (subst encodeVarint.simps) simp
    have c1: "(?b OR 128) AND 127 = ?b" using b by (simp add: or128_nat and127_nat)
    have "(?b + 128) div 128 = 1" using b by simp
    then have c2: "(?b OR 128) AND 128 \<noteq> 0" using b by (simp add: or128_nat and128_nat)
    have "decodeVarintLoop (encodeVarint v @ rest) acc s =
          decodeVarintLoop (encodeVarint (drop_bit 7 v) @ rest) (acc OR push_bit s (v AND 127)) (s + 7)"
      using c2 by (simp add: enc c1 bint Let_def)
    also have "\<dots> = ((acc OR push_bit s (v AND 127)) OR push_bit (s + 7) (drop_bit 7 v), rest)"
      using "1.IH" [OF True nn] .
    also have "(acc OR push_bit s (v AND 127)) OR push_bit (s + 7) (drop_bit 7 v)
               = acc OR push_bit s ((v AND 127) OR push_bit 7 (drop_bit 7 v))"
      by (simp add: or.assoc add.commute)
    finally show ?thesis by (simp add: low7_split)
  next
    case False
    have z: "drop_bit 7 v = 0" using False "1.prems" by (simp add: drop_bit_eq_div)
    have v: "v AND 127 = v" using low7_split [of v] z by simp
    have b': "nat v < 128" using b v by simp
    have enc: "encodeVarint v = [nat v]"
      using False by (subst encodeVarint.simps) (simp add: v)
    have c1: "nat v AND 127 = nat v" using b' by (simp add: and127_nat)
    have c2: "nat v AND 128 = 0" using b' by (simp add: and128_nat)
    show ?thesis using "1.prems" by (simp add: enc c1 c2 Let_def)
  qed
qed

lemma encodeVarint_length_pos: "1 \<le> length (encodeVarint v)"
  by (subst encodeVarint.simps) simp

lemma encodeVarint_length_le:
  "0 \<le> v \<Longrightarrow> v < 2 ^ (7 * n) \<Longrightarrow> 0 < n \<Longrightarrow> length (encodeVarint v) \<le> n"
proof (induction n arbitrary: v)
  case 0
  then show ?case by simp
next
  case (Suc n)
  show ?case
  proof (cases "drop_bit 7 v > 0")
    case True
    have lt: "drop_bit 7 v < 2 ^ (7 * n)"
    proof -
      have "v < 2 ^ 7 * 2 ^ (7 * n)" using Suc.prems(2) by (simp add: power_add)
      then have "v div 2 ^ 7 < 2 ^ (7 * n)" by (simp add: div_less_iff_less_mult mult.commute)
      then show ?thesis by (simp add: drop_bit_eq_div)
    qed
    have "0 < n" using True lt by (cases n) auto
    then have "length (encodeVarint (drop_bit 7 v)) \<le> n"
      using Suc.IH [of "drop_bit 7 v"] True lt Suc.prems(1) by simp
    then show ?thesis using True by (subst encodeVarint.simps) simp
  next
    case False
    then show ?thesis by (subst encodeVarint.simps) simp
  qed
qed

lemma encodeVarint_small: "0 \<le> v \<Longrightarrow> v < 128 \<Longrightarrow> encodeVarint v = [nat v]"
  by (subst encodeVarint.simps) (simp add: drop_bit_eq_div and127_int)

text \<open>
  \<^bold>\<open>C2.\<close> For every unsigned integer \<open>v\<close> in \<open>[0, 2^64)\<close>, reading the varint encoding of \<open>v\<close>
  (followed by any bytes) yields \<open>v\<close> again and stops right after the encoding; the encoding
  has at least one and at most ten bytes. In particular \<open>0\<close> is encoded as \<open>00\<close>, \<open>127\<close> as
  \<open>7f\<close> and \<open>300\<close> as \<open>ac 02\<close>.
\<close>

theorem varint_roundtrip:
  "(0 \<le> v \<and> v < 2 ^ 64 \<longrightarrow>
      decodeVarint (encodeVarint v @ rest) = (v, rest) \<and>
      length (encodeVarint v) \<le> 10 \<and> 1 \<le> length (encodeVarint v)) \<and>
   encodeVarint 0 = [0x00] \<and> encodeVarint 127 = [0x7f] \<and> encodeVarint 300 = [0xac, 0x02]"
proof -
  have rt: "decodeVarint (encodeVarint v @ rest) = (v, rest)" if "0 \<le> v"
    using that by (simp add: decodeVarint_def decodeVarintLoop_encodeVarint)
  have len: "length (encodeVarint v) \<le> 10" if "0 \<le> v" "v < 2 ^ 64"
  proof -
    have "v < 2 ^ (7 * 10)" using that(2) by simp
    then show ?thesis using that(1) by (intro encodeVarint_length_le) simp_all
  qed
  have e0: "encodeVarint 0 = [0x00]" by (simp add: encodeVarint_small)
  have e127: "encodeVarint 127 = [0x7f]" by (simp add: encodeVarint_small)
  have e300: "encodeVarint 300 = [0xac, 0x02]"
    by (subst encodeVarint.simps) (simp add: drop_bit_eq_div and127_int encodeVarint_small)
  show ?thesis using rt len e0 e127 e300 encodeVarint_length_pos [of v] by blast
qed

theorem varint_roundtrip_witness:
  "(0::int) \<le> 300 \<and> (300::int) < 2 ^ 64 \<and>
   decodeVarint (encodeVarint 300 @ [7]) = (300, [7]) \<and>
   length (encodeVarint 300) \<le> 10 \<and> 1 \<le> length (encodeVarint 300)"
proof -
  have range: "(0::int) \<le> 300 \<and> (300::int) < 2 ^ 64" by simp
  with varint_roundtrip [of 300 "[7]"] show ?thesis by blast
qed

subsection \<open>Default values\<close>








subsection \<open>Blob analysis\<close>

lemma utf8Loop_lossy: "utf8Loop False bs cp need lo hi \<noteq> None"
  by (induction "False" bs cp need lo hi rule: utf8Loop.induct) (auto simp: consOpt_def)

text \<open>
  \<^bold>\<open>C10.\<close> For every byte array and whatever \<open>JSON.parse\<close> and \<open>parseProtoFields\<close> do
  (return or throw), \<open>analyzeBlobData\<close> returns a result (each throw is caught, so the
  model has no error branch) whose type is one of \<open>json\<close>, \<open>text\<close>, \<open>protobuf\<close>,
  \<open>binary\<close>; and when the bytes decode under strict UTF-8 to a text, the type is \<open>json\<close>
  if \<open>JSON.parse\<close> accepts the text and \<open>text\<close> if it throws, never \<open>protobuf\<close> or
  \<open>binary\<close>.
\<close>

theorem analyzeBlobData_classification:
  "blobType (analyzeBlobData E data) \<in> {TypeJson, TypeText, TypeProtobuf, TypeBinary} \<and>
   (textDecodeFatal data = Some text \<longrightarrow>
      (jsonParse E text \<noteq> None \<longrightarrow> blobType (analyzeBlobData E data) = TypeJson) \<and>
      (jsonParse E text = None \<longrightarrow> blobType (analyzeBlobData E data) = TypeText) \<and>
      blobType (analyzeBlobData E data) \<noteq> TypeProtobuf \<and>
      blobType (analyzeBlobData E data) \<noteq> TypeBinary)"
proof -
  have one: "blobType (analyzeBlobData E data) \<in> {TypeJson, TypeText, TypeProtobuf, TypeBinary}"
    by (cases "blobType (analyzeBlobData E data)") simp_all
  have utf: "(jsonParse E text \<noteq> None \<longrightarrow> blobType (analyzeBlobData E data) = TypeJson) \<and>
      (jsonParse E text = None \<longrightarrow> blobType (analyzeBlobData E data) = TypeText) \<and>
      blobType (analyzeBlobData E data) \<noteq> TypeProtobuf \<and>
      blobType (analyzeBlobData E data) \<noteq> TypeBinary"
    if "textDecodeFatal data = Some text"
    using that by (cases "jsonParse E text") (simp_all add: analyzeBlobData_def)
  show ?thesis using one utf by blast
qed

theorem analyzeBlobData_classification_witness:
  "textDecodeFatal [0x68, 0x69] = Some (str ''hi'') \<and>
   jsonParse (specEnv 0) (str ''hi'') = None \<and>
   blobType (analyzeBlobData (specEnv 0) [0x68, 0x69]) = TypeText \<and>
   textDecodeFatal (textEncode assistantJsonText) = Some assistantJsonText \<and>
   jsonParse (specEnv 0) assistantJsonText \<noteq> None \<and>
   blobType (analyzeBlobData (specEnv 0) (textEncode assistantJsonText)) = TypeJson \<and>
   textDecodeFatal [0x0A, 1, 0xFF] = None \<and>
   blobType (analyzeBlobData (specEnv 0) [0x0A, 1, 0xFF]) = TypeProtobuf \<and>
   blobType (analyzeBlobData (specEnv 0) [0xFF]) = TypeBinary"
proof -
  have d1: "textDecodeFatal [0x68, 0x69] = Some (str ''hi'')"
    by (simp add: textDecodeFatal_def stripBOM_def consOpt_def utf16_of_codepoint_def str_def)
  have j1: "jsonParse (specEnv 0) (str ''hi'') = None"
    by (simp add: specEnv_def assistantJsonText_def str_def)
  have t1: "blobType (analyzeBlobData (specEnv 0) [0x68, 0x69]) = TypeText"
    using analyzeBlobData_classification [of "specEnv 0" "[0x68, 0x69]" "str ''hi''"] d1 j1
    by blast
  have d2: "textDecodeFatal (textEncode assistantJsonText) = Some assistantJsonText"
    by (simp add: assistantJsonText_def str_def isHighSurrogate_def isLowSurrogate_def
                  utf8_of_codepoint_def textDecodeFatal_def stripBOM_def consOpt_def
                  utf16_of_codepoint_def)
  have j2: "jsonParse (specEnv 0) assistantJsonText \<noteq> None"
    by (simp add: specEnv_def)
  have t2: "blobType (analyzeBlobData (specEnv 0) (textEncode assistantJsonText)) = TypeJson"
    using analyzeBlobData_classification
            [of "specEnv 0" "textEncode assistantJsonText" assistantJsonText] d2 j2
    by blast
  have d3: "textDecodeFatal [0x0A, 1, 0xFF] = None"
    by (simp add: textDecodeFatal_def stripBOM_def consOpt_def)
  have t3: "blobType (analyzeBlobData (specEnv 0) [0x0A, 1, 0xFF]) = TypeProtobuf"
    by (simp add: analyzeBlobData_def textDecodeFatal_def stripBOM_def consOpt_def specEnv_def
                  parseProtoFieldsSpec_def protoEntry_def)
  have t4: "blobType (analyzeBlobData (specEnv 0) [0xFF]) = TypeBinary"
    by (simp add: analyzeBlobData_def textDecodeFatal_def stripBOM_def consOpt_def specEnv_def
                  parseProtoFieldsSpec_def)
  show ?thesis using d1 j1 t1 d2 j2 t2 d3 t3 t4 by blast
qed

subsection \<open>Tool-call ids\<close>

lemma startsWith_append: "startsWith (pre @ s) pre"
  by (simp add: startsWith_def)

lemma underscore_not_alnum: "\<not> isAlnum 0x5F"
  by (simp add: isAlnum_def)

lemma createSessionId_alnum:
  assumes "\<forall>c \<in> set uuid. c = 0x2D \<or> (0x30 \<le> c \<and> c \<le> 0x39) \<or> (0x61 \<le> c \<and> c \<le> 0x66)"
  shows "\<forall>c \<in> set (createSessionId uuid). isAlnum c"
proof
  fix c
  assume "c \<in> set (createSessionId uuid)"
  then have "c \<in> set (filter (\<lambda>c. c \<noteq> 0x2D) uuid)"
    unfolding createSessionId_def by (rule in_set_takeD)
  then have "c \<in> set uuid" and "c \<noteq> 0x2D" by simp_all
  with assms have "(0x30 \<le> c \<and> c \<le> 0x39) \<or> (0x61 \<le> c \<and> c \<le> 0x66)" by blast
  then show "isAlnum c" unfolding isAlnum_def by linarith
qed

text \<open>
  \<^bold>\<open>C8.\<close> For every non-empty session id \<open>sid\<close> of letters and digits and every call base,
  \<open>parseSessionIdFromToolCallId\<close> applied to \<open>makeToolCallId sid base\<close>, which is
  \<open>sess_<sid>__call_<base>\<close>, returns \<open>sid\<close>.
\<close>

theorem tool_call_id_roundtrip:
  assumes "sid \<noteq> []" and "\<forall>c \<in> set sid. isAlnum c"
  shows "parseSessionIdFromToolCallId (Some (makeToolCallId sid base)) = Some sid"
proof -
  let ?tail = "str ''__call_'' @ base"
  have id: "makeToolCallId sid base = str ''sess_'' @ (sid @ ?tail)"
    by (simp add: makeToolCallId_def)
  have len5: "length (str ''sess_'') = 5" by (simp add: str_def)
  have d: "drop 5 (makeToolCallId sid base) = sid @ ?tail"
    using len5 by (simp add: id)
  have hd_tail: "?tail = 0x5F # tl ?tail" by (simp add: str_def)
  have tw: "takeWhile isAlnum (sid @ ?tail) = sid"
  proof -
    have "takeWhile isAlnum (sid @ ?tail) = sid @ takeWhile isAlnum ?tail"
      using assms(2) by simp
    also have "takeWhile isAlnum ?tail = []"
      by (subst hd_tail) (simp add: underscore_not_alnum)
    finally show ?thesis by simp
  qed
  obtain n where n: "length sid = Suc n" using assms(1) by (cases sid) auto
  have "matchGroup (length sid) (sid @ ?tail) = Some sid"
    unfolding n using n by (simp add: startsWith_def)
  moreover have "makeToolCallId sid base \<noteq> []" by (simp add: id str_def)
  moreover have "startsWith (makeToolCallId sid base) (str ''sess_'')"
    unfolding id by (rule startsWith_append)
  ultimately show ?thesis
    by (simp add: parseSessionIdFromToolCallId_def d tw)
qed

theorem tool_call_id_roundtrip_witness:
  "str ''a1B2c3'' \<noteq> [] \<and> list_all isAlnum (str ''a1B2c3'') \<and>
   makeToolCallId (str ''a1B2c3'') (str ''x_9__call_z'') = str ''sess_a1B2c3__call_x_9__call_z'' \<and>
   parseSessionIdFromToolCallId (Some (str ''sess_a1B2c3__call_x_9__call_z'')) = Some (str ''a1B2c3'')"
proof -
  have ne: "str ''a1B2c3'' \<noteq> []" by (simp add: str_def)
  have al: "\<forall>c \<in> set (str ''a1B2c3''). isAlnum c" by (simp add: str_def isAlnum_def)
  have mk: "makeToolCallId (str ''a1B2c3'') (str ''x_9__call_z'') = str ''sess_a1B2c3__call_x_9__call_z''"
    by (simp add: makeToolCallId_def str_def)
  have al': "list_all isAlnum (str ''a1B2c3'')" using al by (simp only: list_all_iff)
  show ?thesis using tool_call_id_roundtrip [OF ne al, of "str ''x_9__call_z''"] ne al' mk by simp
qed

subsection \<open>Token expiry\<close>

text \<open>
  \<^bold>\<open>C9\<close>, as stated, fails: the check also holds for a credential that has an access
  token but no expiry time, which \<open>!access || expires_at_ms <= now + 60_000\<close> does not
  cover.
\<close>

theorem accessTokenExpired_counterexample:
  "accessTokenExpired 0 \<lparr>refresh = str ''r'', access = Some (str ''tok''), expires = None\<rparr> \<and>
   \<not> expiredAsSpecified 0 \<lparr>refresh = str ''r'', access = Some (str ''tok''), expires = None\<rparr>"
  by (simp add: accessTokenExpired_def expiredAsSpecified_def str_def)

text \<open>
  \<^bold>\<open>C9\<close>, amended. The token-expiry check holds exactly when there is no access token
  (none, or an empty one), or there is no expiry time, or \<open>expires \<le> now + 60000\<close>; a
  credential with a non-empty access token whose expiry lies more than 60 seconds in the
  future is not considered expired.
\<close>

theorem accessTokenExpired_iff:
  "accessTokenExpired dateNow auth =
     (access auth = None \<or> access auth = Some [] \<or> expires auth = None \<or>
      (\<exists>e. expires auth = Some e \<and> e \<le> dateNow + 60000)) \<and>
   (access auth = Some a \<and> a \<noteq> [] \<and> expires auth = Some e' \<and> dateNow + 60000 < e' \<longrightarrow>
      \<not> accessTokenExpired dateNow auth)"
  by (auto simp: accessTokenExpired_def split: option.splits)

theorem accessTokenExpired_iff_witness:
  "access \<lparr>refresh = str ''r'', access = Some (str ''tok''), expires = Some 100000\<rparr> = Some (str ''tok'') \<and>
   str ''tok'' \<noteq> [] \<and>
   expires \<lparr>refresh = str ''r'', access = Some (str ''tok''), expires = Some 100000\<rparr> = Some 100000 \<and>
   (1000::int) + 60000 < 100000 \<and>
   \<not> accessTokenExpired 1000 \<lparr>refresh = str ''r'', access = Some (str ''tok''), expires = Some 100000\<rparr> \<and>
   accessTokenExpired 40000 \<lparr>refresh = str ''r'', access = Some (str ''tok''), expires = Some 100000\<rparr>"
proof -
  let ?A = "\<lparr>refresh = str ''r'', access = Some (str ''tok''), expires = Some 100000\<rparr>"
  have h: "access ?A = Some (str ''tok'') \<and> str ''tok'' \<noteq> [] \<and> expires ?A = Some 100000 \<and>
           (1000::int) + 60000 < 100000"
    by (simp add: str_def)
  have "\<not> accessTokenExpired 1000 ?A"
    using accessTokenExpired_iff [of 1000 ?A "str ''tok''" 100000] h by blast
  moreover have "accessTokenExpired 40000 ?A"
    using accessTokenExpired_iff [of 40000 ?A "str ''tok''" 100000] by simp
  ultimately show ?thesis using h by blast
qed

subsection \<open>Read results\<close>









section \<open>The stream: what is yielded at the end of a turn\<close>

text \<open>The equations that evaluate a run of the stream on given bytes.\<close>

lemmas stream_defs =
  chatStream_def readLoop.simps frameLoop.simps handleMessage.simps handleField_def
  handleKvMessage_def bidiAppend_def sendResult_def withChunks_def cleanExit_def outerCatch_def
  newClient_def specEnv_def parseProtoFieldsSpec_def parseKvServerMessage_def
  byteAt_def jsSlice_def sliceIndex_def frameLength_def toInt32_def wireSeqnos_def
  blobIdToKey_def hexOfBytes_def digitChar_def mkError_def Let_def str_def
  parseInteractionUpdate_def handleInteractionUpdate_def progressSteps_def textStep_def
  startedStep_def completedStep_def partialStep_def completeStep_def heartbeatStep_def
  markProgress_def yieldProgress_def handleTrailer_def frameOf_def textDecode_def stripBOM_def
  consOpt_def utf16_of_codepoint_def decodeURIComponent_def hexVal_def leadingOnes_def
  startsWith_def messageGroup_def isJsSpace_def isLineBreak_def parseErrorChunk_def showInt_def
  HEARTBEAT_IDLE_MS_PROGRESS_def HEARTBEAT_MAX_PROGRESS_def HEARTBEAT_IDLE_MS_NOPROGRESS_def
  HEARTBEAT_MAX_NOPROGRESS_def







lemma markProgress_streamed [simp]:
  "hasStreamedText (markProgress E st) = hasStreamedText st"
  by (simp add: markProgress_def)









lemma streamedOk_same:
  "hasStreamedText st' = hasStreamedText st \<Longrightarrow> DoneChunk \<notin> set cs \<Longrightarrow>
   \<not> list_ex isBlobChunk cs \<Longrightarrow> streamedOk (hasStreamedText st) (cs, st')"
  by (simp add: streamedOk_def)













lemma markProgress_pending [simp]:
  "pendingAssistantBlobs (markProgress E st) = pendingAssistantBlobs st"
  by (simp add: markProgress_def)





section \<open>Trailer frames\<close>







section \<open>Sequence numbers of the appends\<close>

text \<open>
  \<^bold>\<open>C1.\<close> The generator \<open>chatStream\<close> counts its appends in the local variable \<open>appendSeqno\<close>,
  the \<open>send\<dots>Result\<close> methods count theirs in \<open>this.currentAppendSeqno\<close>, and only the
  generator copies its counter to the other one. The server asks for a directory listing,
  the consumer answers with \<open>sendLsResult\<close> (appends 1 and 2), then the server asks for a
  blob: the reply to it is appended with the number 1 again. The sequence on the wire is
  0, 1, 2, 1 and not 0, 1, 2, 3.
\<close>

theorem append_seqno_repeats:
  "map_option (\<lambda>r. (fst r, wireSeqnos (snd r)))
     (chatStream (Suc (Suc (Suc 0)))
        ((specEnv 0)\<lparr>parseExecServerMessage := (\<lambda>bs. Inr (Some (LsExec 1 None (str ''src''))))\<rparr>)
        (SseBody [Data (frameOf 0 [0x12, 2, 0x08, 1]),
                  ConsumerSend (ToolResultSend (SendLsResult 1 None (str ''a.txt''))),
                  Data (frameOf 0 [0x22, 7, 0x08, 5, 0x12, 3, 0x0A, 1, 0xAB])])
        newClient) =
   Some ([ExecRequestChunk (LsExec 1 None (str ''src'')), DoneChunk], [0, 1, 2, 1])"
  by (simp add: stream_defs)

section \<open>Heartbeats and progress\<close>













end
